theory Spec2Isabelle
  imports Main
begin

section \<open>JavaScript values and objects\<close>

text \<open>
  The services receive request data that has already been parsed from JSON. A value is
  one of the scalars below. A string is the list of the bytes of its UTF-8 encoding. A
  number \<open>JNum n\<close> stands for the JavaScript number \<open>n\<close> when \<open>n\<close> is a safe
  integer (\<open>Number.isSafeInteger\<close>: of magnitude below \<open>2^53\<close>), as every identifier,
  flag and counter the services look at is; other numbers are outside the model, and
  what is proved about a number assumes \<open>safe_integer\<close>. An object is an association
  list from property names to values, in insertion order; reading a property that is
  absent gives \<open>undefined\<close>.
\<close>

datatype jsval = JUndefined | JNull | JBool bool | JNum int | JStr string

type_synonym obj = "(string \<times> jsval) list"

definition safe_integer :: "int \<Rightarrow> bool" where
  "safe_integer n = (- 9007199254740992 < n \<and> n < 9007199254740992)"

fun number_ok :: "jsval \<Rightarrow> bool" where
  "number_ok (JNum n) = safe_integer n"
| "number_ok v = True"

definition getprop :: "obj \<Rightarrow> string \<Rightarrow> jsval" where
  "getprop ob k = (case map_of ob k of None \<Rightarrow> JUndefined | Some v \<Rightarrow> v)"

fun setprop :: "obj \<Rightarrow> string \<Rightarrow> jsval \<Rightarrow> obj" where
  "setprop [] k v = [(k, v)]"
| "setprop ((k', v') # ps) k v =
     (if k' = k then (k, v) # ps else (k', v') # setprop ps k v)"

definition delprop :: "obj \<Rightarrow> string \<Rightarrow> obj" where
  "delprop ob k = filter (\<lambda>p. fst p \<noteq> k) ob"

text \<open>\<open>!v\<close> is \<open>\<not> truthy v\<close>: undefined, null, false, 0 and the empty string are falsy.\<close>

fun truthy :: "jsval \<Rightarrow> bool" where
  "truthy JUndefined = False"
| "truthy JNull = False"
| "truthy (JBool b) = b"
| "truthy (JNum n) = (n \<noteq> 0)"
| "truthy (JStr s) = (s \<noteq> [])"

subsection \<open>String(x) and parseInt(x)\<close>

text \<open>The decimal digits are the characters with codes 48 to 57.\<close>

definition digit_char :: "nat \<Rightarrow> char" where
  "digit_char n = char_of (48 + n)"

fun dec_digits :: "nat \<Rightarrow> string" where
  "dec_digits n = (if n < 10 then [digit_char n] else dec_digits (n div 10) @ [digit_char (n mod 10)])"

declare dec_digits.simps [simp del]

definition decimal :: "int \<Rightarrow> string" where
  "decimal i = (if i < 0 then CHR ''-'' # dec_digits (nat (- i)) else dec_digits (nat i))"

text \<open>
  \<open>String(x)\<close>, the conversion \<open>parseInt\<close> applies to its argument first. A safe
  integer prints in decimal. (From \<open>10^21\<close> on JavaScript prints a number in exponent
  notation; such numbers are not safe integers.)
\<close>

fun toString :: "jsval \<Rightarrow> string" where
  "toString JUndefined = ''undefined''"
| "toString JNull = ''null''"
| "toString (JBool b) = (if b then ''true'' else ''false'')"
| "toString (JNum n) = decimal n"
| "toString (JStr s) = s"

text \<open>
  The white space that \<open>parseInt\<close> skips: the characters TAB, LF, VT, FF, CR and space,
  and beyond ASCII the characters U+00A0, U+1680, U+2000 to U+200A, U+2028, U+2029,
  U+202F, U+205F, U+3000 and U+FEFF, which are two or three bytes in UTF-8.
  \<open>space_len s\<close> is the number of bytes of the white space character that \<open>s\<close>
  starts with, 0 when it starts with none.
\<close>

definition is_space :: "char \<Rightarrow> bool" where
  "is_space c = (c = CHR '' '' \<or> c = CHR 0x09 \<or> c = CHR 0x0A \<or> c = CHR 0x0B
                 \<or> c = CHR 0x0C \<or> c = CHR 0x0D)"

definition is_space2 :: "char \<Rightarrow> char \<Rightarrow> bool" where
  "is_space2 a b = (a = CHR 0xC2 \<and> b = CHR 0xA0)"

definition is_space3 :: "char \<Rightarrow> char \<Rightarrow> char \<Rightarrow> bool" where
  "is_space3 a b c =
     (a = CHR 0xE1 \<and> b = CHR 0x9A \<and> c = CHR 0x80
      \<or> a = CHR 0xE2 \<and> b = CHR 0x80
          \<and> ((128::nat) \<le> of_char c \<and> (of_char c :: nat) \<le> 138
               \<or> c = CHR 0xA8 \<or> c = CHR 0xA9 \<or> c = CHR 0xAF)
      \<or> a = CHR 0xE2 \<and> b = CHR 0x81 \<and> c = CHR 0x9F
      \<or> a = CHR 0xE3 \<and> b = CHR 0x80 \<and> c = CHR 0x80
      \<or> a = CHR 0xEF \<and> b = CHR 0xBB \<and> c = CHR 0xBF)"

fun space_len :: "string \<Rightarrow> nat" where
  "space_len [] = 0"
| "space_len [a] = (if is_space a then 1 else 0)"
| "space_len [a, b] = (if is_space a then 1 else if is_space2 a b then 2 else 0)"
| "space_len (a # b # c # rest) =
     (if is_space a then 1 else if is_space2 a b then 2 else if is_space3 a b c then 3 else 0)"

function skip_space :: "string \<Rightarrow> string" where
  "skip_space s = (if space_len s = 0 then s else skip_space (drop (space_len s) s))"
  by pat_completeness auto
termination
  apply (relation "measure length")
   apply simp
  subgoal for s by (cases s) auto
  done

declare skip_space.simps [simp del]

definition dec_val :: "char \<Rightarrow> nat option" where
  "dec_val c =
     (let k = (of_char c :: nat) in if 48 \<le> k \<and> k \<le> 57 then Some (k - 48) else None)"

text \<open>Radix 16 adds the letters a to f (codes 97 to 102) and A to F (codes 65 to 70).\<close>

definition hex_val :: "char \<Rightarrow> nat option" where
  "hex_val c =
     (let k = (of_char c :: nat)
      in if 48 \<le> k \<and> k \<le> 57 then Some (k - 48)
         else if 97 \<le> k \<and> k \<le> 102 then Some (k - 87)
         else if 65 \<le> k \<and> k \<le> 70 then Some (k - 55)
         else None)"

text \<open>
  The longest prefix of digits, read in the given radix; \<open>None\<close> when the string does
  not start with a digit. The accumulator holds the value read so far and whether a
  digit has been seen.
\<close>

fun read_digits :: "(char \<Rightarrow> nat option) \<Rightarrow> nat \<Rightarrow> nat option \<Rightarrow> string \<Rightarrow> nat option" where
  "read_digits val radix acc [] = acc"
| "read_digits val radix acc (c # cs) =
     (case val c of
        None \<Rightarrow> acc
      | Some d \<Rightarrow>
          read_digits val radix
            (Some ((case acc of None \<Rightarrow> 0 | Some a \<Rightarrow> a) * radix + d)) cs)"

definition read_unsigned :: "string \<Rightarrow> nat option" where
  "read_unsigned s =
     (case s of
        c # x # rest \<Rightarrow>
          (if c = CHR ''0'' \<and> (x = CHR ''x'' \<or> x = CHR ''X'')
           then read_digits hex_val 16 None rest
           else read_digits dec_val 10 None s)
      | _ \<Rightarrow> read_digits dec_val 10 None s)"

text \<open>
  What \<open>parseInt\<close> returns is a number: NaN, or a safe integer, or (\<open>PBig\<close>) a number
  of magnitude \<open>2^53\<close> or more, the nearest one to the digits read, which the model does
  not compute.
\<close>

datatype parsed = PNaN | PInt int | PBig

definition parsed_of :: "int option \<Rightarrow> parsed" where
  "parsed_of r = (case r of None \<Rightarrow> PNaN | Some m \<Rightarrow> if safe_integer m then PInt m else PBig)"

text \<open>
  \<open>parseInt\<close> of a string with no radix argument: leading white space is skipped, a sign
  is read, a \<open>0x\<close> prefix selects radix 16, and the digits that follow give the value;
  anything after them is ignored.
\<close>

definition parseInt_str :: "string \<Rightarrow> parsed" where
  "parseInt_str s =
     parsed_of
       (case skip_space s of
          [] \<Rightarrow> None
        | c # rest \<Rightarrow>
            (if c = CHR ''-'' then map_option (\<lambda>n. - int n) (read_unsigned rest)
             else if c = CHR ''+'' then map_option int (read_unsigned rest)
             else map_option int (read_unsigned (c # rest))))"

definition parseInt :: "jsval \<Rightarrow> parsed" where
  "parseInt v = parseInt_str (toString v)"

text \<open>
  \<open>a !== parseInt(u)\<close>: strict inequality of a value with the number \<open>parseInt\<close>
  returned. NaN is unequal to everything, a value that is not a number is unequal to
  every number, and a safe integer is unequal to every number of magnitude \<open>2^53\<close> or
  more.
\<close>

fun strict_neq_num :: "jsval \<Rightarrow> parsed \<Rightarrow> bool" where
  "strict_neq_num (JNum a) (PInt b) = (a \<noteq> b)"
| "strict_neq_num _ _ = True"

text \<open>\<open>s.split(c)\<close> for a one-character separator.\<close>

fun split_on :: "char \<Rightarrow> string \<Rightarrow> string list" where
  "split_on c [] = [ [] ]"
| "split_on c (x # xs) =
     (if x = c then [] # split_on c xs
      else (case split_on c xs of [] \<Rightarrow> [ [x] ] | y # ys \<Rightarrow> (x # y) # ys))"

section \<open>Errors\<close>

text \<open>
  Modelled from the spec: the error classes of \<open>utils/errors/index.js\<close>, which is not
  among the sources. The spec lists five kinds; the services build them as
  \<open>new Kind(message)\<close> or \<open>new ValidationError(message, fields)\<close> and tell them apart
  with \<open>instanceof\<close>, so an error is its kind, its message and its field list (empty
  when none is given). Any other exception (a driver error, a \<open>TypeError\<close>) is
  \<open>Unclassified\<close> with its message.
\<close>

datatype error_kind =
  ValidationError | NotFoundError | AuthenticationError | AuthorizationError | DatabaseError

datatype exn = Thrown error_kind string "string list" | Unclassified string

fun message_of :: "exn \<Rightarrow> string" where
  "message_of (Thrown k m fs) = m"
| "message_of (Unclassified m) = m"

fun instanceof :: "exn \<Rightarrow> error_kind \<Rightarrow> bool" where
  "instanceof (Thrown k m fs) k' = (k = k')"
| "instanceof (Unclassified m) k' = False"

section \<open>The event and blog services\<close>

text \<open>
  The services talk to the connection pool and to the \<open>Event\<close> and \<open>Blog\<close> model
  classes, none of which is among the sources. They are parameters: an environment
  says what each call answers (a value, or the exception it rejects with), and every
  service function returns, next to its result, the list of calls it made, in order.
\<close>

datatype call =
    GetConnection
  | Release
  | EventCreate obj
  | EventFindById jsval
  | EventUpdate jsval obj
  | EventDelete jsval
  | EventUpdateFeaturedStatus jsval jsval
  | EventUpdateHomeStatus jsval jsval
  | EventUpdateStatus jsval jsval
  | BlogCreate obj
  | BlogFindById jsval
  | BlogUpdate jsval obj
  | BlogDelete jsval
  | BlogUpdateActiveStatus jsval jsval
  | BlogUpdateFeaturedStatus jsval jsval
  | SelectUserRole jsval

record env =
  getConnection :: "exn option"
  find_event :: "jsval \<Rightarrow> exn + obj option"
  find_blog :: "jsval \<Rightarrow> exn + obj option"
  select_role :: "jsval \<Rightarrow> exn + obj list"
  model_write :: "call \<Rightarrow> exn + jsval"

type_synonym 'a traced = "(exn + 'a) \<times> call list"

text \<open>
  \<open>const connection = await mysqlPool.getConnection(); try { body } catch (error)
  { throw handler(error) } finally { connection.release() }\<close>. A failure to get
  the connection happens before the \<open>try\<close> and reaches the caller as it is.
\<close>

definition with_connection :: "env \<Rightarrow> (exn \<Rightarrow> exn) \<Rightarrow> 'a traced \<Rightarrow> 'a traced" where
  "with_connection e handler body =
     (case getConnection e of
        Some x \<Rightarrow> (Inl x, [GetConnection])
      | None \<Rightarrow>
          (case body of
             (Inl x, log) \<Rightarrow> (Inl (handler x), GetConnection # log @ [Release])
           | (Inr v, log) \<Rightarrow> (Inr v, GetConnection # log @ [Release])))"

text \<open>One call to a model method that writes: its answer, and the call in the log.\<close>

definition write_call :: "env \<Rightarrow> call list \<Rightarrow> call \<Rightarrow> jsval traced" where
  "write_call e log c = (model_write e c, log @ [c])"

text \<open>The \<open>catch\<close> blocks: the listed kinds are rethrown, anything else is wrapped.\<close>

definition rethrow_or_wrap :: "error_kind list \<Rightarrow> string \<Rightarrow> exn \<Rightarrow> exn" where
  "rethrow_or_wrap kinds msg x =
     (if list_ex (instanceof x) kinds then x else Thrown DatabaseError msg [])"

definition rethrow_or_wrap_detail :: "error_kind list \<Rightarrow> string \<Rightarrow> exn \<Rightarrow> exn" where
  "rethrow_or_wrap_detail kinds prefix x =
     (if list_ex (instanceof x) kinds then x
      else Thrown DatabaseError (prefix @ message_of x) [])"

text \<open>
  \<open>if (d.event_time && d.event_time.split(':').length === 2) d.event_time =
  `${d.event_time}:00`\<close>. A truthy value that is not a string has no \<open>split\<close>
  method: the call raises a \<open>TypeError\<close>.
\<close>

definition normalize_time :: "obj \<Rightarrow> exn + obj" where
  "normalize_time d =
     (case getprop d ''event_time'' of
        JStr s \<Rightarrow>
          (if s \<noteq> [] \<and> length (split_on CHR '':'' s) = 2
           then Inr (setprop d ''event_time'' (JStr (s @ '':00'')))
           else Inr d)
      | v \<Rightarrow>
          (if truthy v
           then Inl (Unclassified ''eventData.event_time.split is not a function'')
           else Inr d))"

definition is_true_flag :: "jsval \<Rightarrow> bool" where
  "is_true_flag v = (v = JBool True \<or> v = JStr ''true'')"

definition event_required :: "string list" where
  "event_required = [''event_name'', ''event_date'', ''event_time'', ''location'', ''event_type'']"

definition blog_required :: "string list" where
  "blog_required = [''title'', ''category'', ''content'']"

subsection \<open>EventService\<close>

definition createEvent :: "env \<Rightarrow> obj \<Rightarrow> jsval \<Rightarrow> jsval traced" where
  "createEvent e eventData userId =
     (if \<not> truthy (getprop eventData ''event_name'') \<or> \<not> truthy (getprop eventData ''event_date'')
         \<or> \<not> truthy (getprop eventData ''event_time'') \<or> \<not> truthy (getprop eventData ''location'')
         \<or> \<not> truthy (getprop eventData ''event_type'')
      then (Inl (Thrown ValidationError ''Datos de evento incompletos''
                  [''event_name'', ''event_date'', ''event_time'', ''location'', ''event_type'']), [])
      else
        (case normalize_time eventData of
           Inl x \<Rightarrow> (Inl x, [])
         | Inr d \<Rightarrow>
             with_connection e
               (rethrow_or_wrap_detail [ValidationError] ''Error al crear el evento: '')
               (write_call e []
                  (EventCreate
                     (setprop (setprop d ''created_by'' userId) ''is_featured''
                        (JBool (is_true_flag (getprop d ''is_featured''))))))))"

definition event_found :: "env \<Rightarrow> jsval \<Rightarrow> (obj \<Rightarrow> 'a traced) \<Rightarrow> 'a traced" where
  "event_found e eid k =
     (case find_event e eid of
        Inl x \<Rightarrow> (Inl x, [EventFindById eid])
      | Inr None \<Rightarrow> (Inl (Thrown NotFoundError ''Evento no encontrado'' []), [EventFindById eid])
      | Inr (Some event) \<Rightarrow> k event)"

definition updateEvent :: "env \<Rightarrow> jsval \<Rightarrow> obj \<Rightarrow> jsval \<Rightarrow> jsval traced" where
  "updateEvent e eid eventData userId =
     (if \<not> truthy eid then (Inl (Thrown ValidationError ''ID de evento es requerido'' []), [])
      else
        with_connection e
          (rethrow_or_wrap_detail [ValidationError, NotFoundError, AuthorizationError]
             ''Error al actualizar el evento: '')
          (event_found e eid (\<lambda>event.
             if strict_neq_num (getprop event ''created_by'') (parseInt userId)
             then (Inl (Thrown AuthorizationError ''No autorizado para actualizar este evento'' []),
                   [EventFindById eid])
             else
               (case normalize_time
                       (delprop (delprop (delprop eventData ''created_by'') ''created_at'')
                          ''updated_at'') of
                  Inl x \<Rightarrow> (Inl x, [EventFindById eid])
                | Inr d \<Rightarrow>
                    write_call e [EventFindById eid]
                      (EventUpdate eid
                         (if getprop d ''is_featured'' \<noteq> JUndefined
                          then setprop d ''is_featured''
                                 (JBool (is_true_flag (getprop d ''is_featured'')))
                          else d))))))"

definition deleteEvent :: "env \<Rightarrow> jsval \<Rightarrow> jsval \<Rightarrow> jsval traced" where
  "deleteEvent e eid userId =
     (if \<not> truthy eid then (Inl (Thrown ValidationError ''ID de evento es requerido'' []), [])
      else
        with_connection e
          (rethrow_or_wrap [ValidationError, NotFoundError, AuthorizationError]
             ''Error al eliminar el evento'')
          (event_found e eid (\<lambda>event.
             if strict_neq_num (getprop event ''created_by'') (parseInt userId)
             then (Inl (Thrown AuthorizationError ''No autorizado para eliminar este evento'' []),
                   [EventFindById eid])
             else write_call e [EventFindById eid] (EventDelete eid))))"

definition EventService_updateFeaturedStatus :: "env \<Rightarrow> jsval \<Rightarrow> jsval \<Rightarrow> jsval \<Rightarrow> jsval traced" where
  "EventService_updateFeaturedStatus e eid isFeatured userId =
     (if \<not> truthy eid then (Inl (Thrown ValidationError ''ID de evento es requerido'' []), [])
      else
        with_connection e
          (rethrow_or_wrap [ValidationError, NotFoundError, AuthorizationError]
             ''Error al actualizar el estado destacado del evento'')
          (event_found e eid (\<lambda>event.
             if strict_neq_num (getprop event ''created_by'') (parseInt userId)
             then (Inl (Thrown AuthorizationError ''No autorizado para actualizar este evento'' []),
                   [EventFindById eid])
             else write_call e [EventFindById eid] (EventUpdateFeaturedStatus eid isFeatured))))"

definition updateHomeStatus :: "env \<Rightarrow> jsval \<Rightarrow> jsval \<Rightarrow> jsval \<Rightarrow> jsval traced" where
  "updateHomeStatus e eid isHome userId =
     (if \<not> truthy eid then (Inl (Thrown ValidationError ''ID de evento es requerido'' []), [])
      else
        with_connection e
          (rethrow_or_wrap [ValidationError, NotFoundError, AuthorizationError]
             ''Error al actualizar el estado de inicio del evento'')
          (event_found e eid (\<lambda>event.
             if strict_neq_num (getprop event ''created_by'') (parseInt userId)
             then (Inl (Thrown AuthorizationError ''No autorizado para actualizar este evento'' []),
                   [EventFindById eid])
             else write_call e [EventFindById eid] (EventUpdateHomeStatus eid isHome))))"

definition event_statuses :: "string list" where
  "event_statuses = [''activo'', ''cancelado'', ''pospuesto'', ''completado'']"

text \<open>
  \<open>['activo', ...].includes(status)\<close>: the value is a string and equals a member. The
  message is \<open>Estado de evento inv\<close>, the two bytes of a-acute in UTF-8, \<open>lido\<close>.
\<close>

definition includes_status :: "jsval \<Rightarrow> bool" where
  "includes_status status = (case status of JStr s \<Rightarrow> s \<in> set event_statuses | _ \<Rightarrow> False)"

definition invalid_status_message :: string where
  "invalid_status_message = ''Estado de evento inv'' @ [CHR 0xC3, CHR 0xA1] @ ''lido''"

definition updateEventStatus :: "env \<Rightarrow> jsval \<Rightarrow> jsval \<Rightarrow> jsval \<Rightarrow> jsval traced" where
  "updateEventStatus e eid status userId =
     (if \<not> truthy eid then (Inl (Thrown ValidationError ''ID de evento es requerido'' []), [])
      else if \<not> truthy status \<or> \<not> includes_status status
      then (Inl (Thrown ValidationError invalid_status_message []), [])
      else
        with_connection e
          (rethrow_or_wrap [ValidationError, NotFoundError, AuthorizationError]
             ''Error al actualizar el estado del evento'')
          (event_found e eid (\<lambda>event.
             if strict_neq_num (getprop event ''created_by'') (parseInt userId)
             then (Inl (Thrown AuthorizationError ''No autorizado para actualizar este evento'' []),
                   [EventFindById eid])
             else write_call e [EventFindById eid] (EventUpdateStatus eid status))))"

subsection \<open>BlogService\<close>

definition createBlog :: "env \<Rightarrow> obj \<Rightarrow> jsval \<Rightarrow> jsval traced" where
  "createBlog e blogData userId =
     (if \<not> truthy (getprop blogData ''title'') \<or> \<not> truthy (getprop blogData ''category'')
         \<or> \<not> truthy (getprop blogData ''content'')
      then (Inl (Thrown ValidationError ''Datos de blog incompletos''
                  [''title'', ''category'', ''content'']), [])
      else
        with_connection e (rethrow_or_wrap [ValidationError] ''Error al crear el blog'')
          (write_call e []
             (BlogCreate
                (setprop (setprop blogData ''author_id'' userId) ''is_featured''
                   (if truthy (getprop blogData ''is_featured'')
                    then getprop blogData ''is_featured'' else JBool False)))))"

definition blog_found :: "env \<Rightarrow> jsval \<Rightarrow> (obj \<Rightarrow> 'a traced) \<Rightarrow> 'a traced" where
  "blog_found e bid k =
     (case find_blog e bid of
        Inl x \<Rightarrow> (Inl x, [BlogFindById bid])
      | Inr None \<Rightarrow> (Inl (Thrown NotFoundError ''Blog no encontrado'' []), [BlogFindById bid])
      | Inr (Some blog) \<Rightarrow> k blog)"

definition updateBlog :: "env \<Rightarrow> jsval \<Rightarrow> obj \<Rightarrow> jsval \<Rightarrow> jsval traced" where
  "updateBlog e bid blogData userId =
     (if \<not> truthy bid then (Inl (Thrown ValidationError ''ID de blog es requerido'' []), [])
      else
        with_connection e
          (rethrow_or_wrap [ValidationError, NotFoundError, AuthorizationError]
             ''Error al actualizar el blog'')
          (blog_found e bid (\<lambda>blog.
             if strict_neq_num (getprop blog ''author_id'') (parseInt userId)
             then (Inl (Thrown AuthorizationError ''No autorizado para actualizar este blog'' []),
                   [BlogFindById bid])
             else write_call e [BlogFindById bid] (BlogUpdate bid blogData))))"

definition updateBlogStatus :: "env \<Rightarrow> jsval \<Rightarrow> jsval \<Rightarrow> jsval \<Rightarrow> jsval traced" where
  "updateBlogStatus e bid isActive userId =
     (if \<not> truthy bid then (Inl (Thrown ValidationError ''ID de blog es requerido'' []), [])
      else
        with_connection e
          (rethrow_or_wrap [ValidationError, NotFoundError, AuthorizationError]
             ''Error al actualizar el estado del blog'')
          (blog_found e bid (\<lambda>blog.
             if strict_neq_num (getprop blog ''author_id'') (parseInt userId)
             then (Inl (Thrown AuthorizationError ''No autorizado para actualizar este blog'' []),
                   [BlogFindById bid])
             else write_call e [BlogFindById bid] (BlogUpdateActiveStatus bid isActive))))"

definition deleteBlog :: "env \<Rightarrow> jsval \<Rightarrow> jsval \<Rightarrow> jsval traced" where
  "deleteBlog e bid userId =
     (if \<not> truthy bid then (Inl (Thrown ValidationError ''ID de blog es requerido'' []), [])
      else
        with_connection e
          (rethrow_or_wrap [ValidationError, NotFoundError, AuthorizationError]
             ''Error al eliminar el blog'')
          (blog_found e bid (\<lambda>blog.
             if strict_neq_num (getprop blog ''author_id'') (parseInt userId)
             then (Inl (Thrown AuthorizationError ''No autorizado para eliminar este blog'' []),
                   [BlogFindById bid])
             else write_call e [BlogFindById bid] (BlogDelete bid))))"

text \<open>\<open>userRows.length > 0 && userRows[0].role === 'admin'\<close>\<close>

definition is_admin_rows :: "obj list \<Rightarrow> bool" where
  "is_admin_rows userRows =
     (case userRows of [] \<Rightarrow> False | r # _ \<Rightarrow> getprop r ''role'' = JStr ''admin'')"

definition BlogService_updateFeaturedStatus :: "env \<Rightarrow> jsval \<Rightarrow> jsval \<Rightarrow> jsval \<Rightarrow> jsval traced" where
  "BlogService_updateFeaturedStatus e bid isFeatured userId =
     (if \<not> truthy bid then (Inl (Thrown ValidationError ''ID de blog es requerido'' []), [])
      else
        with_connection e
          (rethrow_or_wrap [ValidationError, NotFoundError, AuthorizationError]
             ''Error al actualizar el estado destacado del blog'')
          (blog_found e bid (\<lambda>blog.
             case select_role e userId of
               Inl x \<Rightarrow> (Inl x, [BlogFindById bid, SelectUserRole userId])
             | Inr userRows \<Rightarrow>
                 if strict_neq_num (getprop blog ''author_id'') (parseInt userId)
                    \<and> \<not> is_admin_rows userRows
                 then (Inl (Thrown AuthorizationError ''No autorizado para actualizar este blog'' []),
                       [BlogFindById bid, SelectUserRole userId])
                 else write_call e [BlogFindById bid, SelectUserRole userId]
                        (BlogUpdateFeaturedStatus bid isFeatured))))"

section \<open>The credential subsystem\<close>

text \<open>
  The tables \<open>users\<close> and \<open>auth_credentials\<close>, with the columns the queries of
  \<open>auth.service.js\<close> name. A table is the list of its rows; \<open>rows[0]\<close> of a
  \<open>SELECT\<close> is the first row that matches. Times are seconds on one clock.
\<close>

record user_row =
  u_id :: int
  u_first_name :: string
  u_last_name :: string
  u_email :: string
  u_phone :: "string option"
  u_status :: string
  u_role :: string
  u_profile_image :: "string option"
  u_refresh_token :: "string option"
  u_last_login :: "nat option"
  u_created_at :: nat
  u_updated_at :: nat

record cred_row =
  c_id :: int
  c_user_id :: int
  c_password :: string
  c_reset_token :: "string option"
  c_reset_token_expires :: "nat option"

record auth_db =
  users :: "user_row list"
  auth_credentials :: "cred_row list"

text \<open>The ten columns that \<open>getUserById\<close> and \<open>login\<close> select.\<close>

record user_view =
  v_id :: int
  v_first_name :: string
  v_last_name :: string
  v_email :: string
  v_phone :: "string option"
  v_status :: string
  v_role :: string
  v_profile_image :: "string option"
  v_created_at :: nat
  v_updated_at :: nat

definition view_of :: "user_row \<Rightarrow> user_view" where
  "view_of u = \<lparr> v_id = u_id u, v_first_name = u_first_name u, v_last_name = u_last_name u,
                 v_email = u_email u, v_phone = u_phone u, v_status = u_status u,
                 v_role = u_role u, v_profile_image = u_profile_image u,
                 v_created_at = u_created_at u, v_updated_at = u_updated_at u \<rparr>"

record register_data =
  r_first_name :: string
  r_last_name :: string
  r_email :: string
  r_phone :: "string option"
  r_password :: string

record login_result =
  l_user :: user_view
  l_accessToken :: string
  l_refreshToken :: string

text \<open>
  Every awaited call on the pool or on a connection can reject; \<open>site\<close> names the
  calls, in the order of the source.
\<close>

datatype site =
    GetUser_Select
  | Register_SelectEmail | Register_GetConnection | Register_Begin | Register_InsertUser
  | Register_InsertCredential | Register_SelectCreated | Register_Commit | Register_Rollback
  | Login_SelectUser | Login_SelectCredential | Login_UpdateUser
  | Logout_Update
  | Refresh_SelectUser
  | RequestReset_SelectUser | RequestReset_Update
  | Reset_SelectCredential | Reset_Update
  | Change_SelectCredential | Change_Update

text \<open>
  What the service does not compute itself: which calls fail (and the driver's message),
  bcrypt, the token library, the random reset token, the database's clock (\<open>NOW()\<close>),
  the server's clock (\<open>new Date()\<close>) and its local-time arithmetic
  (\<open>setHours(getHours() + 1)\<close>, an hour later except across a change of the clocks),
  the identifiers the database assigns to inserted rows, and the default of the
  \<open>role\<close> column.
\<close>

record auth_env =
  fault :: "site \<Rightarrow> string option"
  bcrypt_hash :: "string \<Rightarrow> string"
  bcrypt_compare :: "string \<Rightarrow> string \<Rightarrow> bool"
  jwt_sign_access :: "int \<Rightarrow> string \<Rightarrow> string \<Rightarrow> string"
  jwt_sign_refresh :: "int \<Rightarrow> string"
  jwt_verify_access :: "string \<Rightarrow> string + (int \<times> string \<times> string)"
  jwt_verify_refresh :: "string \<Rightarrow> string + int"
  random_token :: string
  now :: nat
  js_now :: nat
  plus_one_hour :: "nat \<Rightarrow> nat"
  next_user_id :: int
  next_credential_id :: int
  default_role :: string

type_synonym 'a stateful = "(exn + 'a) \<times> auth_db"

text \<open>\<open>try { body } catch (error) { throw handler(error) }\<close>\<close>

definition catch_with :: "(exn \<Rightarrow> exn) \<Rightarrow> (exn + 'a) \<times> 's \<Rightarrow> (exn + 'a) \<times> 's" where
  "catch_with handler body =
     (case body of (Inl x, db) \<Rightarrow> (Inl (handler x), db) | (Inr v, db) \<Rightarrow> (Inr v, db))"

text \<open>
  An awaited query: it rejects, leaving the state as it is, or the rest of the function
  runs.
\<close>

definition query :: "auth_env \<Rightarrow> site \<Rightarrow> 's \<Rightarrow> (exn + 'a) \<times> 's \<Rightarrow> (exn + 'a) \<times> 's" where
  "query e s db rest = (case fault e s of Some m \<Rightarrow> (Inl (Unclassified m), db) | None \<Rightarrow> rest)"

subsection \<open>getUserById\<close>

definition getUserById_try :: "auth_env \<Rightarrow> auth_db \<Rightarrow> int \<Rightarrow> user_view stateful" where
  "getUserById_try e db userId =
     query e GetUser_Select db
       (case filter (\<lambda>u. u_id u = userId) (users db) of
          [] \<Rightarrow> (Inl (Thrown NotFoundError ''Usuario no encontrado'' []), db)
        | u # _ \<Rightarrow> (Inr (view_of u), db))"

definition getUserById :: "auth_env \<Rightarrow> auth_db \<Rightarrow> int \<Rightarrow> user_view stateful" where
  "getUserById e db userId =
     catch_with (rethrow_or_wrap [NotFoundError] ''Error al obtener usuario'')
       (getUserById_try e db userId)"

subsection \<open>register\<close>

definition new_user :: "auth_env \<Rightarrow> register_data \<Rightarrow> user_row" where
  "new_user e userData =
     \<lparr> u_id = next_user_id e, u_first_name = r_first_name userData,
       u_last_name = r_last_name userData, u_email = r_email userData,
       u_phone = (case r_phone userData of None \<Rightarrow> None
                  | Some p \<Rightarrow> if p = [] then None else Some p),
       u_status = ''active'', u_role = default_role e, u_profile_image = None,
       u_refresh_token = None, u_last_login = None,
       u_created_at = now e, u_updated_at = now e \<rparr>"

definition new_credential :: "auth_env \<Rightarrow> int \<Rightarrow> string \<Rightarrow> cred_row" where
  "new_credential e userId hashedPassword =
     \<lparr> c_id = next_credential_id e, c_user_id = userId, c_password = hashedPassword,
       c_reset_token = None, c_reset_token_expires = None \<rparr>"

text \<open>
  \<open>register\<close> works on one connection and in a transaction. The state of a connection
  is what the database holds (\<open>committed\<close>), the view of the transaction that is open
  on the connection, if one is (\<open>pending\<close>), and whether the connection has been given
  back to the pool (\<open>released\<close>). A statement in an open transaction changes the pending
  view only; \<open>commit\<close> makes the pending view the database; \<open>rollback\<close> drops it.
\<close>

record connection =
  committed :: auth_db
  pending :: "auth_db option"
  released :: bool

definition idle :: "auth_db \<Rightarrow> connection" where
  "idle db = \<lparr> committed = db, pending = None, released = False \<rparr>"

definition conn_begin :: "connection \<Rightarrow> connection" where
  "conn_begin c = c\<lparr>pending := Some (committed c)\<rparr>"

definition conn_view :: "connection \<Rightarrow> auth_db" where
  "conn_view c = (case pending c of None \<Rightarrow> committed c | Some w \<Rightarrow> w)"

definition conn_execute :: "(auth_db \<Rightarrow> auth_db) \<Rightarrow> connection \<Rightarrow> connection" where
  "conn_execute f c =
     (case pending c of
        None \<Rightarrow> c\<lparr>committed := f (committed c)\<rparr>
      | Some w \<Rightarrow> c\<lparr>pending := Some (f w)\<rparr>)"

definition conn_commit :: "connection \<Rightarrow> connection" where
  "conn_commit c =
     (case pending c of None \<Rightarrow> c | Some w \<Rightarrow> c\<lparr>committed := w, pending := None\<rparr>)"

definition conn_rollback :: "connection \<Rightarrow> connection" where
  "conn_rollback c = c\<lparr>pending := None\<rparr>"

definition conn_release :: "connection \<Rightarrow> connection" where
  "conn_release c = c\<lparr>released := True\<rparr>"

text \<open>The inner \<open>try\<close> block: the statements from the first insertion to the \<open>return\<close>.\<close>

definition register_transaction :: "auth_env \<Rightarrow> connection \<Rightarrow> register_data \<Rightarrow> string \<Rightarrow> (exn + user_row) \<times> connection" where
  "register_transaction e c userData hashedPassword =
     query e Register_InsertUser c
       (let c1 = conn_execute (\<lambda>d. d\<lparr>users := users d @ [new_user e userData]\<rparr>) c;
            userId = next_user_id e
        in query e Register_InsertCredential c1
             (let c2 = conn_execute
                         (\<lambda>d. d\<lparr>auth_credentials :=
                                   auth_credentials d @ [new_credential e userId hashedPassword]\<rparr>)
                         c1
              in query e Register_SelectCreated c2
                   (let created = filter (\<lambda>u. u_id u = userId) (users (conn_view c2))
                    in query e Register_Commit c2
                         (let c3 = conn_release (conn_commit c2)
                          in case created of
                               [] \<Rightarrow> (Inl (Unclassified
                                             ''Cannot convert undefined or null to object''), c3)
                             | newUser # _ \<Rightarrow> (Inr newUser, c3)))))"

text \<open>
  The inner \<open>catch\<close>: \<open>await connection.rollback(); connection.release(); throw error\<close>.
  When the rollback itself rejects, its error is the one thrown and the connection is
  not released.
\<close>

definition register_catch :: "auth_env \<Rightarrow> (exn + 'a) \<times> connection \<Rightarrow> (exn + 'a) \<times> connection" where
  "register_catch e body =
     (case body of
        (Inl error, c) \<Rightarrow>
          query e Register_Rollback c (Inl error, conn_release (conn_rollback c))
      | (Inr v, c) \<Rightarrow> (Inr v, c))"

definition register_try :: "auth_env \<Rightarrow> auth_db \<Rightarrow> register_data \<Rightarrow> (exn + user_row) \<times> connection" where
  "register_try e db userData =
     query e Register_SelectEmail (idle db)
       (if filter (\<lambda>u. u_email u = r_email userData) (users db) \<noteq> []
        then (Inl (Thrown ValidationError ''Email is already registered'' []), idle db)
        else
          (let hashedPassword = bcrypt_hash e (r_password userData)
           in query e Register_GetConnection (idle db)
                (query e Register_Begin (idle db)
                   (register_catch e
                      (register_transaction e (conn_begin (idle db)) userData hashedPassword)))))"

definition register :: "auth_env \<Rightarrow> auth_db \<Rightarrow> register_data \<Rightarrow> (exn + user_row) \<times> connection" where
  "register e db userData =
     catch_with (rethrow_or_wrap [ValidationError] ''Failed to register user'')
       (register_try e db userData)"

subsection \<open>login, logout, refreshToken\<close>

definition login_try :: "auth_env \<Rightarrow> auth_db \<Rightarrow> string \<Rightarrow> string \<Rightarrow> login_result stateful" where
  "login_try e db email password =
     query e Login_SelectUser db
       (case filter (\<lambda>u. u_email u = email) (users db) of
          [] \<Rightarrow> (Inl (Thrown AuthenticationError ''Invalid email or password'' []), db)
        | row # _ \<Rightarrow>
            (let user = view_of row
             in query e Login_SelectCredential db
                  (case filter (\<lambda>c. c_user_id c = v_id user) (auth_credentials db) of
                     [] \<Rightarrow> (Inl (Thrown AuthenticationError
                                   ''No authentication credentials found'' []), db)
                   | cred # _ \<Rightarrow>
                       if \<not> bcrypt_compare e password (c_password cred)
                       then (Inl (Thrown AuthenticationError ''Invalid email or password'' []), db)
                       else
                         (let accessToken = jwt_sign_access e (v_id user) (v_email user) (v_role user);
                              refreshToken = jwt_sign_refresh e (v_id user)
                          in query e Login_UpdateUser db
                               (Inr \<lparr> l_user = user, l_accessToken = accessToken,
                                      l_refreshToken = refreshToken \<rparr>,
                                db\<lparr>users :=
                                     map (\<lambda>u. if u_id u = v_id user
                                               then u\<lparr>u_refresh_token := Some refreshToken,
                                                      u_last_login := Some (now e)\<rparr>
                                               else u) (users db)\<rparr>)))))"

definition login :: "auth_env \<Rightarrow> auth_db \<Rightarrow> string \<Rightarrow> string \<Rightarrow> login_result stateful" where
  "login e db email password =
     catch_with (rethrow_or_wrap [AuthenticationError] ''Failed to process login'')
       (login_try e db email password)"

definition logout_try :: "auth_env \<Rightarrow> auth_db \<Rightarrow> int \<Rightarrow> bool stateful" where
  "logout_try e db userId =
     query e Logout_Update db
       (Inr True,
        db\<lparr>users := map (\<lambda>u. if u_id u = userId then u\<lparr>u_refresh_token := None\<rparr> else u)
                         (users db)\<rparr>)"

definition logout :: "auth_env \<Rightarrow> auth_db \<Rightarrow> int \<Rightarrow> bool stateful" where
  "logout e db userId =
     catch_with (\<lambda>error. Thrown DatabaseError ''Failed to process logout'' [])
       (logout_try e db userId)"

definition refreshToken_try :: "auth_env \<Rightarrow> auth_db \<Rightarrow> string \<Rightarrow> string stateful" where
  "refreshToken_try e db refreshToken =
     (case jwt_verify_refresh e refreshToken of
        Inl m \<Rightarrow> (Inl (Unclassified m), db)
      | Inr decoded_id \<Rightarrow>
          query e Refresh_SelectUser db
            (case filter (\<lambda>u. u_id u = decoded_id \<and> u_refresh_token u = Some refreshToken)
                    (users db) of
               [] \<Rightarrow> (Inl (Thrown AuthenticationError ''Invalid refresh token'' []), db)
             | user # _ \<Rightarrow>
                 (Inr (jwt_sign_access e (u_id user) (u_email user) (u_role user)), db)))"

definition refreshToken :: "auth_env \<Rightarrow> auth_db \<Rightarrow> string \<Rightarrow> string stateful" where
  "refreshToken e db token =
     catch_with (\<lambda>error. Thrown AuthenticationError ''Invalid refresh token'' [])
       (refreshToken_try e db token)"

definition validateToken :: "auth_env \<Rightarrow> string \<Rightarrow> exn + (int \<times> string \<times> string)" where
  "validateToken e token =
     (case jwt_verify_access e token of
        Inl m \<Rightarrow> Inl (Thrown AuthenticationError ''Invalid token'' [])
      | Inr payload \<Rightarrow> Inr payload)"

subsection \<open>Password reset and change\<close>

definition requestPasswordReset_try :: "auth_env \<Rightarrow> auth_db \<Rightarrow> string \<Rightarrow> string stateful" where
  "requestPasswordReset_try e db email =
     query e RequestReset_SelectUser db
       (case filter (\<lambda>u. u_email u = email) (users db) of
          [] \<Rightarrow> (Inl (Thrown NotFoundError ''User not found'' []), db)
        | user # _ \<Rightarrow>
            (let resetToken = random_token e;
                 resetExpires = plus_one_hour e (js_now e)
             in query e RequestReset_Update db
                  (Inr resetToken,
                   db\<lparr>auth_credentials :=
                        map (\<lambda>c. if c_user_id c = u_id user
                                  then c\<lparr>c_reset_token := Some resetToken,
                                         c_reset_token_expires := Some resetExpires\<rparr>
                                  else c) (auth_credentials db)\<rparr>)))"

definition requestPasswordReset :: "auth_env \<Rightarrow> auth_db \<Rightarrow> string \<Rightarrow> string stateful" where
  "requestPasswordReset e db email =
     catch_with (\<lambda>error. Thrown DatabaseError ''Failed to process password reset request'' [])
       (requestPasswordReset_try e db email)"

text \<open>\<open>reset_token_expires > NOW()\<close>; a comparison with NULL is not true.\<close>

definition expires_in_future :: "auth_env \<Rightarrow> cred_row \<Rightarrow> bool" where
  "expires_in_future e c =
     (case c_reset_token_expires c of None \<Rightarrow> False | Some t \<Rightarrow> now e < t)"

definition resetPassword_try :: "auth_env \<Rightarrow> auth_db \<Rightarrow> string \<Rightarrow> string \<Rightarrow> bool stateful" where
  "resetPassword_try e db token newPassword =
     query e Reset_SelectCredential db
       (case filter (\<lambda>c. c_reset_token c = Some token) (auth_credentials db) of
          [] \<Rightarrow> (Inl (Thrown ValidationError ''Invalid or expired reset token'' []), db)
        | credential # _ \<Rightarrow>
            (let hashedPassword = bcrypt_hash e newPassword
             in query e Reset_Update db
                  (Inr True,
                   db\<lparr>auth_credentials :=
                        map (\<lambda>c. if c_id c = c_id credential \<and> expires_in_future e c
                                  then c\<lparr>c_password := hashedPassword, c_reset_token := None,
                                         c_reset_token_expires := None\<rparr>
                                  else c) (auth_credentials db)\<rparr>)))"

definition resetPassword :: "auth_env \<Rightarrow> auth_db \<Rightarrow> string \<Rightarrow> string \<Rightarrow> bool stateful" where
  "resetPassword e db token newPassword =
     catch_with (rethrow_or_wrap [ValidationError] ''Failed to reset password'')
       (resetPassword_try e db token newPassword)"

definition changePassword_try :: "auth_env \<Rightarrow> auth_db \<Rightarrow> int \<Rightarrow> string \<Rightarrow> string \<Rightarrow> bool stateful" where
  "changePassword_try e db userId currentPassword newPassword =
     query e Change_SelectCredential db
       (case filter (\<lambda>c. c_user_id c = userId) (auth_credentials db) of
          [] \<Rightarrow> (Inl (Thrown NotFoundError ''User credentials not found'' []), db)
        | credential # _ \<Rightarrow>
            if \<not> bcrypt_compare e currentPassword (c_password credential)
            then (Inl (Thrown ValidationError ''Current password is incorrect'' []), db)
            else
              (let hashedPassword = bcrypt_hash e newPassword
               in query e Change_Update db
                    (Inr True,
                     db\<lparr>auth_credentials :=
                          map (\<lambda>c. if c_user_id c = userId
                                    then c\<lparr>c_password := hashedPassword\<rparr> else c)
                              (auth_credentials db)\<rparr>)))"

definition changePassword :: "auth_env \<Rightarrow> auth_db \<Rightarrow> int \<Rightarrow> string \<Rightarrow> string \<Rightarrow> bool stateful" where
  "changePassword e db userId currentPassword newPassword =
     catch_with (rethrow_or_wrap [ValidationError, NotFoundError] ''Failed to change password'')
       (changePassword_try e db userId currentPassword newPassword)"

section \<open>Vocabulary of the properties\<close>

text \<open>The required fields of a creation call that the input leaves out (falsy or absent).\<close>

definition missing_fields :: "string list \<Rightarrow> obj \<Rightarrow> string list" where
  "missing_fields required d = filter (\<lambda>k. \<not> truthy (getprop d k)) required"

text \<open>The status values as the specification spells them, in English.\<close>

definition spec_event_statuses :: "string list" where
  "spec_event_statuses = [''active'', ''cancelled'', ''postponed'', ''completed'']"

text \<open>
  How a failure inside a \<open>try\<close> block reaches the caller when the \<open>catch\<close> follows the
  propagation policy: a classified error unchanged, anything else as a
  \<open>DatabaseError\<close> with the operation's message.
\<close>

definition surfaces :: "(exn + 'a) \<Rightarrow> (exn + 'a) \<Rightarrow> string \<Rightarrow> bool" where
  "surfaces inside outside msg =
     (case inside of
        Inl (Thrown k m fs) \<Rightarrow> outside = Inl (Thrown k m fs)
      | Inl (Unclassified m) \<Rightarrow> outside = Inl (Thrown DatabaseError msg [])
      | Inr v \<Rightarrow> outside = Inr v)"

section \<open>Sample data\<close>

text \<open>
  One event and one blog, both with identifier 5 and owned by user 7; user 8 is an
  ordinary user and user 9 an administrator. Every model call succeeds.
\<close>

definition demo_event :: obj where
  "demo_event = [(''id'', JNum 5), (''event_name'', JStr ''Feria''), (''created_by'', JNum 7),
                 (''status'', JStr ''activo'')]"

definition demo_blog :: obj where
  "demo_blog = [(''id'', JNum 5), (''title'', JStr ''Hola''), (''author_id'', JNum 7)]"

definition demo_env :: env where
  "demo_env = \<lparr>
     getConnection = None,
     find_event = (\<lambda>i. if i = JNum 5 then Inr (Some demo_event) else Inr None),
     find_blog = (\<lambda>i. if i = JNum 5 then Inr (Some demo_blog) else Inr None),
     select_role = (\<lambda>u. if u = JNum 9 \<or> u = JStr ''9'' then Inr [ [(''role'', JStr ''admin'')] ]
                         else if u = JNum 7 \<or> u = JStr ''7'' \<or> u = JNum 8 \<or> u = JStr ''8''
                         then Inr [ [(''role'', JStr ''user'')] ] else Inr []),
     model_write = (\<lambda>c. Inr (JBool True)) \<rparr>"

text \<open>The same environment with no blog in the store.\<close>

definition no_blog_env :: env where
  "no_blog_env = demo_env\<lparr>find_blog := (\<lambda>i. Inr None)\<rparr>"

definition demo_event_data :: obj where
  "demo_event_data = [(''event_date'', JStr ''2025-06-01''), (''event_time'', JStr ''14:30''),
                      (''location'', JStr ''Plaza''), (''event_type'', JStr ''feria'')]"

definition demo_blog_patch :: obj where
  "demo_blog_patch = [(''title'', JStr ''Nuevo''), (''author_id'', JNum 99),
                      (''created_at'', JStr ''2000-01-01'')]"

text \<open>
  One registered user with one credential row whose reset token expired at time 100; the
  clock stands at 200. \<open>orphan_db\<close> has the user without the credential row.
  \<open>failing_at s\<close> is the same environment with the call \<open>s\<close> rejecting.
\<close>

definition demo_user :: user_row where
  "demo_user = \<lparr> u_id = 1, u_first_name = ''Ana'', u_last_name = ''Paz'',
                  u_email = ''ana@example.com'', u_phone = None, u_status = ''active'',
                  u_role = ''user'', u_profile_image = None, u_refresh_token = Some ''refresh-1'',
                  u_last_login = None, u_created_at = 10, u_updated_at = 10 \<rparr>"

definition demo_credential :: cred_row where
  "demo_credential = \<lparr> c_id = 1, c_user_id = 1, c_password = ''hash:secreto'',
                        c_reset_token = Some ''tok'', c_reset_token_expires = Some 100 \<rparr>"

definition demo_db :: auth_db where
  "demo_db = \<lparr> users = [demo_user], auth_credentials = [demo_credential] \<rparr>"

definition orphan_db :: auth_db where
  "orphan_db = \<lparr> users = [demo_user], auth_credentials = [] \<rparr>"

definition demo_auth_env :: auth_env where
  "demo_auth_env = \<lparr>
     fault = (\<lambda>s. None),
     bcrypt_hash = (\<lambda>p. ''hash:'' @ p),
     bcrypt_compare = (\<lambda>p h. h = ''hash:'' @ p),
     jwt_sign_access = (\<lambda>i em r. ''access:'' @ em),
     jwt_sign_refresh = (\<lambda>i. ''refresh-1''),
     jwt_verify_access = (\<lambda>t. Inl ''jwt malformed''),
     jwt_verify_refresh = (\<lambda>t. if t = ''refresh-1'' then Inr 1 else Inl ''jwt malformed''),
     random_token = ''abc'',
     now = 200,
     js_now = 200,
     plus_one_hour = (\<lambda>t. t + 3600),
     next_user_id = 2,
     next_credential_id = 2,
     default_role = ''user'' \<rparr>"

definition failing_at :: "site \<Rightarrow> auth_env" where
  "failing_at s = demo_auth_env\<lparr>fault := (\<lambda>s'. if s' = s then Some ''ECONNRESET'' else None)\<rparr>"

definition demo_registration :: register_data where
  "demo_registration = \<lparr> r_first_name = ''Luz'', r_last_name = ''Mejia'',
                          r_email = ''luz@example.com'', r_phone = None,
                          r_password = ''clave1234'' \<rparr>"

section \<open>Lemmas on the JavaScript primitives\<close>

lemmas svc_defs = with_connection_def write_call_def rethrow_or_wrap_def
  rethrow_or_wrap_detail_def event_found_def blog_found_def getprop_def

lemmas auth_defs = catch_with_def query_def rethrow_or_wrap_def

lemma dec_val_digit_char: "d < 10 \<Longrightarrow> dec_val (digit_char d) = Some d"
  by (simp add: dec_val_def digit_char_def)

lemma dec_digits_nonempty: "dec_digits n \<noteq> []"
  by (subst dec_digits.simps) simp

lemma dec_digits_all_digits: "c \<in> set (dec_digits n) \<Longrightarrow> dec_val c \<noteq> None"
proof (induction n rule: dec_digits.induct)
  case (1 n)
  show ?case
  proof (cases "n < 10")
    case True
    with "1.prems" have "c = digit_char n" by (subst (asm) dec_digits.simps) simp
    with True show ?thesis using dec_val_digit_char [of n] by simp
  next
    case False
    with "1.prems" have "c \<in> set (dec_digits (n div 10)) \<or> c = digit_char (n mod 10)"
      by (subst (asm) dec_digits.simps) auto
    then show ?thesis
    proof
      assume "c \<in> set (dec_digits (n div 10))"
      with False "1.IH" show ?thesis by simp
    next
      assume "c = digit_char (n mod 10)"
      then show ?thesis using dec_val_digit_char [of "n mod 10"] by simp
    qed
  qed
qed

lemma read_digits_dec_digits:
  "read_digits dec_val 10 None (dec_digits n @ rest) = read_digits dec_val 10 (Some n) rest"
proof (induction n arbitrary: rest rule: dec_digits.induct)
  case (1 n)
  show ?case
  proof (cases "n < 10")
    case True
    then have "dec_digits n = [digit_char n]" by (subst dec_digits.simps) simp
    with True show ?thesis using dec_val_digit_char [of n] by simp
  next
    case False
    then have eq: "dec_digits n = dec_digits (n div 10) @ [digit_char (n mod 10)]"
      by (subst dec_digits.simps) simp
    have "read_digits dec_val 10 None (dec_digits n @ rest)
          = read_digits dec_val 10 (Some (n div 10)) (digit_char (n mod 10) # rest)"
      using "1.IH" [OF False, of "digit_char (n mod 10) # rest"] by (simp add: eq)
    also have "\<dots> = read_digits dec_val 10 (Some (n div 10 * 10 + n mod 10)) rest"
      using dec_val_digit_char [of "n mod 10"] by simp
    finally show ?thesis by simp
  qed
qed

lemma read_unsigned_dec_digits: "read_unsigned (dec_digits n) = Some n"
proof -
  have x: "dec_val CHR ''x'' = None" "dec_val CHR ''X'' = None" by (simp_all add: dec_val_def)
  have "read_unsigned (dec_digits n) = read_digits dec_val 10 None (dec_digits n)"
  proof (cases "dec_digits n")
    case Nil
    then show ?thesis by (simp add: read_unsigned_def)
  next
    case (Cons c cs)
    show ?thesis
    proof (cases cs)
      case Nil
      with Cons show ?thesis by (simp add: read_unsigned_def)
    next
      case (Cons y ys)
      with \<open>dec_digits n = c # cs\<close> have "y \<in> set (dec_digits n)" by simp
      then have "dec_val y \<noteq> None" by (rule dec_digits_all_digits)
      with x have "y \<noteq> CHR ''x''" "y \<noteq> CHR ''X''" by auto
      with Cons \<open>dec_digits n = c # cs\<close> show ?thesis by (simp add: read_unsigned_def)
    qed
  qed
  also have "\<dots> = Some n" using read_digits_dec_digits [of n "[]"] by simp
  finally show ?thesis .
qed

lemma space_len_plain:
  assumes "\<not> is_space a" and "(of_char a :: nat) < 128"
  shows "space_len (a # s) = 0"
proof -
  have "\<not> is_space2 a b" "\<not> is_space3 a b c" for b c
    using assms(2) by (auto simp: is_space2_def is_space3_def)
  with assms(1) show ?thesis
    by (cases "a # s" rule: space_len.cases) auto
qed

lemma skip_space_plain:
  "\<not> is_space a \<Longrightarrow> (of_char a :: nat) < 128 \<Longrightarrow> skip_space (a # s) = a # s"
  by (subst skip_space.simps) (simp add: space_len_plain)

lemma digit_plain: "dec_val c \<noteq> None \<Longrightarrow> \<not> is_space c \<and> (of_char c :: nat) < 128"
  by (auto simp: dec_val_def is_space_def Let_def split: if_splits)

lemma parseInt_str_decimal:
  assumes "safe_integer i"
  shows "parseInt_str (decimal i) = PInt i"
proof (cases "i < 0")
  case True
  have "skip_space (CHR ''-'' # dec_digits (nat (- i))) = CHR ''-'' # dec_digits (nat (- i))"
    by (rule skip_space_plain) (simp_all add: is_space_def)
  with True assms show ?thesis
    by (simp add: parseInt_str_def decimal_def read_unsigned_dec_digits parsed_of_def)
next
  case False
  obtain c cs where cs: "dec_digits (nat i) = c # cs"
    using dec_digits_nonempty [of "nat i"] by (cases "dec_digits (nat i)") auto
  then have "c \<in> set (dec_digits (nat i))" by simp
  then have d: "dec_val c \<noteq> None" by (rule dec_digits_all_digits)
  have sk: "skip_space (c # cs) = c # cs"
    using digit_plain [OF d] by (simp add: skip_space_plain)
  have "c \<noteq> CHR ''-''" "c \<noteq> CHR ''+''"
    using d by (auto simp: dec_val_def)
  then have "parseInt_str (c # cs) = parsed_of (map_option int (read_unsigned (c # cs)))"
    by (simp add: parseInt_str_def sk)
  with False cs assms show ?thesis
    using read_unsigned_dec_digits [of "nat i"] by (simp add: decimal_def parsed_of_def)
qed

lemma parseInt_JNum: "safe_integer n \<Longrightarrow> parseInt (JNum n) = PInt n"
  by (simp add: parseInt_def parseInt_str_decimal)

lemma parseInt_JStr_decimal: "safe_integer n \<Longrightarrow> parseInt (JStr (decimal n)) = PInt n"
  by (simp add: parseInt_def parseInt_str_decimal)

lemma strict_neq_owner:
  "parseInt userId \<noteq> PInt owner \<Longrightarrow> strict_neq_num (JNum owner) (parseInt userId)"
  by (cases "parseInt userId") auto

lemma getprop_delprop_same: "getprop (delprop d k) k = JUndefined"
  by (induction d) (auto simp: getprop_def delprop_def)

lemma map_of_delprop: "map_of (delprop d k) k' = (if k' = k then None else map_of d k')"
  by (induction d) (auto simp: delprop_def)

lemma map_of_setprop: "map_of (setprop d k v) k' = (if k' = k then Some v else map_of d k')"
  by (induction d) auto

lemma normalize_time_keys:
  "normalize_time d = Inr d' \<Longrightarrow> k \<noteq> ''event_time'' \<Longrightarrow> map_of d' k = map_of d k"
  by (auto simp: normalize_time_def map_of_setprop split: jsval.splits if_splits)

section \<open>Claims on the credential subsystem\<close>

subsection \<open>C1: the messages of a failed login\<close>

text \<open>
  C1. The claim: every failed login raises \<open>AuthenticationError\<close> with one generic
  message, whichever of the three conditions failed. The code at the three failures: an
  unknown email and a wrong password both give \<open>Invalid email or password\<close>, but a
  user without a credential row gives \<open>No authentication credentials found\<close>, which
  tells the caller that the email is registered.
\<close>

theorem login_messages_differ:
  "login demo_auth_env demo_db ''nadie@example.com'' ''secreto''
     = (Inl (Thrown AuthenticationError ''Invalid email or password'' []), demo_db)
   \<and> login demo_auth_env demo_db ''ana@example.com'' ''otra''
     = (Inl (Thrown AuthenticationError ''Invalid email or password'' []), demo_db)
   \<and> login demo_auth_env orphan_db ''ana@example.com'' ''secreto''
     = (Inl (Thrown AuthenticationError ''No authentication credentials found'' []), orphan_db)"
  by (simp add: login_def login_try_def auth_defs demo_auth_env_def demo_db_def orphan_db_def
        demo_user_def demo_credential_def view_of_def)

subsection \<open>C2: how errors reach the caller\<close>

text \<open>
  C2, the claim as stated fails at \<open>refreshToken\<close>, whose \<open>catch\<close> raises
  \<open>AuthenticationError\<close> for whatever it caught. An exception that is not classified
  is therefore not wrapped as \<open>DatabaseError\<close>: neither the token library's error for
  a token that does not verify, nor an unexpected persistence failure (here the user
  lookup rejecting with \<open>ECONNRESET\<close> after the token verified).
\<close>

theorem refreshToken_masks_persistence_failure:
  "fst (refreshToken_try demo_auth_env demo_db ''otro'') = Inl (Unclassified ''jwt malformed'')
   \<and> refreshToken demo_auth_env demo_db ''otro''
       = (Inl (Thrown AuthenticationError ''Invalid refresh token'' []), demo_db)
   \<and> jwt_verify_refresh (failing_at Refresh_SelectUser) ''refresh-1'' = Inr 1
   \<and> fst (refreshToken_try (failing_at Refresh_SelectUser) demo_db ''refresh-1'')
       = Inl (Unclassified ''ECONNRESET'')
   \<and> refreshToken (failing_at Refresh_SelectUser) demo_db ''refresh-1''
       = (Inl (Thrown AuthenticationError ''Invalid refresh token'' []), demo_db)"
  by (simp add: refreshToken_def refreshToken_try_def auth_defs failing_at_def demo_auth_env_def)

text \<open>
  \<open>requestPasswordReset\<close> raises \<open>NotFoundError\<close> for an unknown email inside its
  \<open>try\<close>, and its \<open>catch\<close>, which has no \<open>instanceof\<close> test, turns it into a
  \<open>DatabaseError\<close>.
\<close>

lemma requestPasswordReset_unknown_email:
  "fst (requestPasswordReset_try demo_auth_env demo_db ''nadie@example.com'')
     = Inl (Thrown NotFoundError ''User not found'' [])
   \<and> requestPasswordReset demo_auth_env demo_db ''nadie@example.com''
     = (Inl (Thrown DatabaseError ''Failed to process password reset request'' []), demo_db)"
  by (simp add: requestPasswordReset_def requestPasswordReset_try_def auth_defs
        demo_auth_env_def demo_db_def demo_user_def)

lemma query_Thrown:
  "fst (query e s db rest) = Inl (Thrown k m fs) \<Longrightarrow> fst rest = Inl (Thrown k m fs)"
  by (auto simp: query_def split: option.splits)

lemma getUserById_try_kinds:
  "fst (getUserById_try e db userId) = Inl (Thrown k m fs) \<Longrightarrow> k = NotFoundError"
  by (auto simp: getUserById_try_def dest!: query_Thrown split: list.splits)

lemma register_catch_Thrown:
  "fst (register_catch e body) = Inl (Thrown k m fs) \<Longrightarrow> fst body = Inl (Thrown k m fs)"
  by (auto simp: register_catch_def query_def split: prod.splits sum.splits option.splits)

lemma register_transaction_kinds:
  "fst (register_transaction e c userData h) \<noteq> Inl (Thrown k m fs)"
  by (auto simp: register_transaction_def query_def Let_def split: option.splits list.splits)

lemma register_try_kinds:
  "fst (register_try e db userData) = Inl (Thrown k m fs) \<Longrightarrow> k = ValidationError"
  using register_transaction_kinds
  by (auto simp: register_try_def Let_def dest!: query_Thrown register_catch_Thrown
           split: if_splits)

lemma login_try_kinds:
  "fst (login_try e db email password) = Inl (Thrown k m fs) \<Longrightarrow> k = AuthenticationError"
  by (auto simp: login_try_def Let_def dest!: query_Thrown split: list.splits if_splits)

lemma resetPassword_try_kinds:
  "fst (resetPassword_try e db token newPassword) = Inl (Thrown k m fs) \<Longrightarrow> k = ValidationError"
  by (auto simp: resetPassword_try_def Let_def dest!: query_Thrown split: list.splits if_splits)

lemma changePassword_try_kinds:
  "fst (changePassword_try e db userId cur new) = Inl (Thrown k m fs)
   \<Longrightarrow> k = ValidationError \<or> k = NotFoundError"
  by (auto simp: changePassword_try_def Let_def dest!: query_Thrown split: list.splits if_splits)

lemma surfaces_catch:
  assumes "\<And>k m fs. fst body = Inl (Thrown k m fs) \<Longrightarrow> k \<in> set kinds"
  shows "surfaces (fst body) (fst (catch_with (rethrow_or_wrap kinds msg) body)) msg"
proof (cases body)
  case (Pair r db)
  show ?thesis
  proof (cases r)
    case (Inl x)
    show ?thesis
    proof (cases x)
      case (Thrown k m fs)
      with Pair Inl assms [of k m fs] have "k \<in> set kinds" by simp
      then have "list_ex (instanceof (Thrown k m fs)) kinds"
        by (auto simp: list_ex_iff)
      with Pair Inl Thrown show ?thesis
        by (simp add: surfaces_def catch_with_def rethrow_or_wrap_def)
    next
      case (Unclassified m)
      have "\<not> list_ex (instanceof (Unclassified m)) kinds" by (simp add: list_ex_iff)
      with Pair Inl Unclassified show ?thesis
        by (simp add: surfaces_def catch_with_def rethrow_or_wrap_def)
    qed
  next
    case (Inr v)
    with Pair show ?thesis by (simp add: surfaces_def catch_with_def)
  qed
qed

text \<open>
  C2, amended. In \<open>getUserById\<close>, \<open>register\<close>, \<open>login\<close>, \<open>resetPassword\<close> and
  \<open>changePassword\<close>, a classified error raised inside the \<open>try\<close> block reaches the
  caller unchanged and any other exception reaches it as \<open>DatabaseError\<close> with the
  operation's message; \<open>logout\<close> turns every failure into \<open>DatabaseError\<close>; and
  \<open>refreshToken\<close> turns every failure, an unexpected persistence failure included,
  into \<open>AuthenticationError\<close> with the message \<open>Invalid refresh token\<close>.
\<close>

theorem credential_errors_surface:
  "surfaces (fst (getUserById_try e db userId)) (fst (getUserById e db userId))
      ''Error al obtener usuario''
   \<and> surfaces (fst (register_try e db userData)) (fst (register e db userData))
      ''Failed to register user''
   \<and> surfaces (fst (login_try e db email password)) (fst (login e db email password))
      ''Failed to process login''
   \<and> surfaces (fst (resetPassword_try e db token newPassword))
      (fst (resetPassword e db token newPassword)) ''Failed to reset password''
   \<and> surfaces (fst (changePassword_try e db userId currentPassword newPassword))
      (fst (changePassword e db userId currentPassword newPassword)) ''Failed to change password''
   \<and> fst (logout e db userId)
       = (case fst (logout_try e db userId) of
            Inl x \<Rightarrow> Inl (Thrown DatabaseError ''Failed to process logout'' [])
          | Inr v \<Rightarrow> Inr v)
   \<and> fst (refreshToken e db token)
       = (case fst (refreshToken_try e db token) of
            Inl x \<Rightarrow> Inl (Thrown AuthenticationError ''Invalid refresh token'' [])
          | Inr v \<Rightarrow> Inr v)"
proof (intro conjI)
  show "surfaces (fst (getUserById_try e db userId)) (fst (getUserById e db userId))
      ''Error al obtener usuario''"
    unfolding getUserById_def
    by (rule surfaces_catch) (auto dest: getUserById_try_kinds)
  show "surfaces (fst (register_try e db userData)) (fst (register e db userData))
      ''Failed to register user''"
    unfolding register_def
    by (rule surfaces_catch) (auto dest: register_try_kinds)
  show "surfaces (fst (login_try e db email password)) (fst (login e db email password))
      ''Failed to process login''"
    unfolding login_def
    by (rule surfaces_catch) (auto dest: login_try_kinds)
  show "surfaces (fst (resetPassword_try e db token newPassword))
      (fst (resetPassword e db token newPassword)) ''Failed to reset password''"
    unfolding resetPassword_def
    by (rule surfaces_catch) (auto dest: resetPassword_try_kinds)
  show "surfaces (fst (changePassword_try e db userId currentPassword newPassword))
      (fst (changePassword e db userId currentPassword newPassword)) ''Failed to change password''"
    unfolding changePassword_def
    by (rule surfaces_catch) (auto dest: changePassword_try_kinds)
  show "fst (logout e db userId)
       = (case fst (logout_try e db userId) of
            Inl x \<Rightarrow> Inl (Thrown DatabaseError ''Failed to process logout'' [])
          | Inr v \<Rightarrow> Inr v)"
    by (simp add: logout_def catch_with_def split: prod.splits sum.splits)
  show "fst (refreshToken e db token)
       = (case fst (refreshToken_try e db token) of
            Inl x \<Rightarrow> Inl (Thrown AuthenticationError ''Invalid refresh token'' [])
          | Inr v \<Rightarrow> Inr v)"
    by (simp add: refreshToken_def catch_with_def split: prod.splits sum.splits)
qed

text \<open>
  C2, witness: a classified error of \<open>login\<close>, a persistence failure inside
  \<open>refreshToken\<close> and one inside \<open>changePassword\<close>.
\<close>

theorem credential_errors_surface_witness:
  "surfaces (Inl (Thrown AuthenticationError ''Invalid email or password'' []))
     (fst (login demo_auth_env demo_db ''nadie@example.com'' ''secreto''))
     ''Failed to process login''
   \<and> fst (refreshToken (failing_at Refresh_SelectUser) demo_db ''refresh-1'')
       = Inl (Thrown AuthenticationError ''Invalid refresh token'' [])
   \<and> fst (changePassword (failing_at Change_Update) demo_db 1 ''secreto'' ''nueva-clave'')
       = Inl (Thrown DatabaseError ''Failed to change password'' [])"
proof -
  have l: "fst (login_try demo_auth_env demo_db ''nadie@example.com'' ''secreto'')
            = Inl (Thrown AuthenticationError ''Invalid email or password'' [])"
    by (simp add: login_try_def query_def demo_auth_env_def demo_db_def demo_user_def)
  have r: "fst (refreshToken_try (failing_at Refresh_SelectUser) demo_db ''refresh-1'')
            = Inl (Unclassified ''ECONNRESET'')"
    by (simp add: refreshToken_try_def query_def failing_at_def demo_auth_env_def)
  have c: "fst (changePassword_try (failing_at Change_Update) demo_db 1 ''secreto'' ''nueva-clave'')
            = Inl (Unclassified ''ECONNRESET'')"
    by (simp add: changePassword_try_def query_def failing_at_def demo_auth_env_def demo_db_def
          demo_credential_def)
  show ?thesis
    using credential_errors_surface
        [where e = demo_auth_env and db = demo_db and email = "''nadie@example.com''"
           and password = "''secreto''"]
      credential_errors_surface
        [where e = "failing_at Refresh_SelectUser" and db = demo_db and token = "''refresh-1''"]
      credential_errors_surface
        [where e = "failing_at Change_Update" and db = demo_db and userId = 1
           and currentPassword = "''secreto''" and newPassword = "''nueva-clave''"]
      l r c
    by (simp add: surfaces_def)
qed

subsection \<open>C4: registration leaves no partial state\<close>

text \<open>
  The first insertion adds the user row to the pending view and the database keeps its
  committed state; the row that was inserted is the one the later \<open>SELECT\<close> finds.
\<close>

lemma created_user_found:
  "filter (\<lambda>u. u_id u = next_user_id e) (users db @ [new_user e userData]) \<noteq> []"
  by (simp add: new_user_def)

lemma register_transaction_failure:
  assumes "fst (register_transaction e (conn_begin (idle db)) userData h) = Inl x"
  shows "committed (snd (register_transaction e (conn_begin (idle db)) userData h)) = db"
  using assms created_user_found [of e db userData]
  by (auto simp: register_transaction_def query_def Let_def conn_begin_def idle_def
        conn_execute_def conn_view_def split: option.splits list.splits)

lemma register_catch_committed: "committed (snd (register_catch e body)) = committed (snd body)"
  by (auto simp: register_catch_def query_def conn_release_def conn_rollback_def
           split: prod.splits sum.splits option.splits)

lemma register_catch_pending:
  "fault e Register_Rollback = None \<Longrightarrow> fst (register_catch e body) = Inl x
   \<Longrightarrow> pending (snd (register_catch e body)) = None"
  by (auto simp: register_catch_def query_def conn_release_def conn_rollback_def
           split: prod.splits sum.splits)

lemma register_catch_fst_Inl:
  "fst (register_catch e body) = Inl x \<Longrightarrow> \<exists>y. fst body = Inl y"
  by (auto simp: register_catch_def query_def split: prod.splits sum.splits option.splits)

lemma register_try_failure:
  assumes "fst (register_try e db userData) = Inl x"
  shows "committed (snd (register_try e db userData)) = db"
    and "fault e Register_Rollback = None \<Longrightarrow> pending (snd (register_try e db userData)) = None"
proof -
  let ?h = "bcrypt_hash e (r_password userData)"
  let ?t = "register_transaction e (conn_begin (idle db)) userData ?h"
  have split: "snd (register_try e db userData) = idle db
               \<or> register_try e db userData = register_catch e ?t"
    by (simp add: register_try_def query_def Let_def split: option.splits)
  show "committed (snd (register_try e db userData)) = db"
    using split
  proof
    assume "snd (register_try e db userData) = idle db"
    then show ?thesis by (simp add: idle_def)
  next
    assume tx: "register_try e db userData = register_catch e ?t"
    with assms obtain y where "fst ?t = Inl y"
      by (auto dest: register_catch_fst_Inl)
    then have "committed (snd ?t) = db" by (rule register_transaction_failure)
    with tx show ?thesis by (simp add: register_catch_committed)
  qed
  show "pending (snd (register_try e db userData)) = None" if "fault e Register_Rollback = None"
    using split
  proof
    assume "snd (register_try e db userData) = idle db"
    then show ?thesis by (simp add: idle_def)
  next
    assume tx: "register_try e db userData = register_catch e ?t"
    with assms that show ?thesis by (simp add: register_catch_pending)
  qed
qed

lemma catch_with_snd: "snd (catch_with h body) = snd body"
  by (simp add: catch_with_def split: prod.splits sum.splits)

lemma catch_with_fst_Inl: "fst (catch_with h body) = Inl x \<Longrightarrow> \<exists>y. fst body = Inl y"
  by (auto simp: catch_with_def split: prod.splits sum.splits)

text \<open>
  C4. When a user with the email exists (and the lookup itself succeeds), \<open>register\<close>
  fails with \<open>ValidationError\<close>; no connection was taken and the database is as it was.
  When the insertion of the credential row fails after the user row was inserted, the
  inner \<open>catch\<close> rolls the transaction back (the rollback itself answering):
  \<open>register\<close> fails, the database is as it was, nothing is left pending on the
  connection and the connection is released, so no user row without credentials remains.
  In general a failed \<open>register\<close> leaves the database as it was, and leaves nothing
  pending when the rollback answers.
\<close>

theorem register_leaves_no_partial_state:
  "(fault e Register_SelectEmail = None \<and> (\<exists>u \<in> set (users db). u_email u = r_email userData)
      \<longrightarrow> register e db userData
            = (Inl (Thrown ValidationError ''Email is already registered'' []),
               \<lparr> committed = db, pending = None, released = False \<rparr>))
   \<and> (fault e Register_SelectEmail = None \<and> (\<forall>u \<in> set (users db). u_email u \<noteq> r_email userData)
       \<and> fault e Register_GetConnection = None \<and> fault e Register_Begin = None
       \<and> fault e Register_InsertUser = None \<and> fault e Register_InsertCredential = Some m
       \<and> fault e Register_Rollback = None
      \<longrightarrow> register e db userData
            = (Inl (Thrown DatabaseError ''Failed to register user'' []),
               \<lparr> committed = db, pending = None, released = True \<rparr>))
   \<and> (\<forall>x. fst (register e db userData) = Inl x
        \<longrightarrow> committed (snd (register e db userData)) = db
            \<and> (fault e Register_Rollback = None
                 \<longrightarrow> pending (snd (register e db userData)) = None))"
proof (intro conjI impI allI)
  assume "fault e Register_SelectEmail = None \<and> (\<exists>u \<in> set (users db). u_email u = r_email userData)"
  then have "fault e Register_SelectEmail = None"
    "filter (\<lambda>u. u_email u = r_email userData) (users db) \<noteq> []"
    by (auto simp: filter_empty_conv)
  then show "register e db userData
            = (Inl (Thrown ValidationError ''Email is already registered'' []),
               \<lparr> committed = db, pending = None, released = False \<rparr>)"
    by (simp add: register_def register_try_def catch_with_def query_def rethrow_or_wrap_def
          idle_def)
next
  assume a: "fault e Register_SelectEmail = None \<and> (\<forall>u \<in> set (users db). u_email u \<noteq> r_email userData)
       \<and> fault e Register_GetConnection = None \<and> fault e Register_Begin = None
       \<and> fault e Register_InsertUser = None \<and> fault e Register_InsertCredential = Some m
       \<and> fault e Register_Rollback = None"
  then have "filter (\<lambda>u. u_email u = r_email userData) (users db) = []"
    by (auto simp: filter_empty_conv)
  with a show "register e db userData
            = (Inl (Thrown DatabaseError ''Failed to register user'' []),
               \<lparr> committed = db, pending = None, released = True \<rparr>)"
    by (simp add: register_def register_try_def register_transaction_def register_catch_def
          catch_with_def query_def rethrow_or_wrap_def Let_def idle_def conn_begin_def
          conn_execute_def conn_rollback_def conn_release_def)
next
  fix x
  assume "fst (register e db userData) = Inl x"
  then obtain y where y: "fst (register_try e db userData) = Inl y"
    unfolding register_def by (blast dest: catch_with_fst_Inl)
  show "committed (snd (register e db userData)) = db"
    using register_try_failure(1) [OF y] by (simp add: register_def catch_with_snd)
  show "pending (snd (register e db userData)) = None" if "fault e Register_Rollback = None"
    using register_try_failure(2) [OF y that] by (simp add: register_def catch_with_snd)
qed

text \<open>
  C4, witness: a second registration of the sample user's email, and a registration whose
  credential insertion rejects. In the second, the user row was in the pending view when
  the insertion of the credential rejected, and the rollback dropped it.
\<close>

theorem register_leaves_no_partial_state_witness:
  "register demo_auth_env demo_db (demo_registration\<lparr>r_email := ''ana@example.com''\<rparr>)
     = (Inl (Thrown ValidationError ''Email is already registered'' []),
        \<lparr> committed = demo_db, pending = None, released = False \<rparr>)
   \<and> pending (snd (register_transaction (failing_at Register_InsertCredential)
                     (conn_begin (idle demo_db)) demo_registration ''h''))
     = Some (demo_db\<lparr>users := [demo_user, new_user demo_auth_env demo_registration]\<rparr>)
   \<and> register (failing_at Register_InsertCredential) demo_db demo_registration
     = (Inl (Thrown DatabaseError ''Failed to register user'' []),
        \<lparr> committed = demo_db, pending = None, released = True \<rparr>)"
proof -
  have a: "fault demo_auth_env Register_SelectEmail = None
     \<and> (\<exists>u \<in> set (users demo_db).
           u_email u = r_email (demo_registration\<lparr>r_email := ''ana@example.com''\<rparr>))"
    by (simp add: demo_auth_env_def demo_db_def demo_user_def)
  have b: "fault (failing_at Register_InsertCredential) Register_SelectEmail = None
     \<and> (\<forall>u \<in> set (users demo_db). u_email u \<noteq> r_email demo_registration)
     \<and> fault (failing_at Register_InsertCredential) Register_GetConnection = None
     \<and> fault (failing_at Register_InsertCredential) Register_Begin = None
     \<and> fault (failing_at Register_InsertCredential) Register_InsertUser = None
     \<and> fault (failing_at Register_InsertCredential) Register_InsertCredential = Some ''ECONNRESET''
     \<and> fault (failing_at Register_InsertCredential) Register_Rollback = None"
    by (simp add: failing_at_def demo_auth_env_def demo_db_def demo_user_def demo_registration_def)
  have p: "pending (snd (register_transaction (failing_at Register_InsertCredential)
                     (conn_begin (idle demo_db)) demo_registration ''h''))
     = Some (demo_db\<lparr>users := [demo_user, new_user demo_auth_env demo_registration]\<rparr>)"
    by (simp add: register_transaction_def query_def failing_at_def Let_def conn_begin_def
          idle_def conn_execute_def demo_db_def new_user_def demo_auth_env_def)
  show ?thesis
    using register_leaves_no_partial_state
        [of demo_auth_env demo_db "demo_registration\<lparr>r_email := ''ana@example.com''\<rparr>"] a
      register_leaves_no_partial_state
        [of "failing_at Register_InsertCredential" demo_db demo_registration "''ECONNRESET''"] b p
    by simp
qed

subsection \<open>C6 and C9: resetting a password with an expired token\<close>

text \<open>
  C6. A credential row that carries the token and whose expiry is not in the future is
  the same row after \<open>resetPassword\<close> with that token: its password hash, reset token
  and expiry are unchanged (and so is the \<open>users\<close> table).
\<close>

theorem expired_reset_keeps_row:
  assumes "i < length (auth_credentials db)"
    and "c_reset_token (auth_credentials db ! i) = Some token"
    and "c_reset_token_expires (auth_credentials db ! i) = Some t"
    and "t \<le> now e"
  shows "length (auth_credentials (snd (resetPassword e db token newPassword)))
           = length (auth_credentials db)
         \<and> auth_credentials (snd (resetPassword e db token newPassword)) ! i
           = auth_credentials db ! i
         \<and> users (snd (resetPassword e db token newPassword)) = users db"
proof -
  have "\<not> expires_in_future e (auth_credentials db ! i)"
    using assms(3,4) by (simp add: expires_in_future_def)
  with assms(1) show ?thesis
    by (simp add: resetPassword_def resetPassword_try_def catch_with_snd query_def Let_def
          split: option.splits list.splits)
qed

text \<open>C6, witness: the sample credential row, expired at 100 with the clock at 200.\<close>

theorem expired_reset_keeps_row_witness:
  "(0::nat) < length (auth_credentials demo_db)
   \<and> c_reset_token (auth_credentials demo_db ! 0) = Some ''tok''
   \<and> c_reset_token_expires (auth_credentials demo_db ! 0) = Some 100
   \<and> (100::nat) \<le> now demo_auth_env
   \<and> auth_credentials (snd (resetPassword demo_auth_env demo_db ''tok'' ''nueva-clave'')) ! 0
       = demo_credential"
proof -
  have h: "(0::nat) < length (auth_credentials demo_db)"
    "c_reset_token (auth_credentials demo_db ! 0) = Some ''tok''"
    "c_reset_token_expires (auth_credentials demo_db ! 0) = Some 100"
    "(100::nat) \<le> now demo_auth_env"
    by (simp_all add: demo_db_def demo_credential_def demo_auth_env_def)
  have r: "auth_credentials demo_db ! 0 = demo_credential" by (simp add: demo_db_def)
  show ?thesis
    using h r expired_reset_keeps_row [OF h, of "''nueva-clave''"] by simp
qed

lemma map_unchanged: "(\<And>x. x \<in> set xs \<Longrightarrow> f x = x) \<Longrightarrow> map f xs = xs"
  by (induction xs) auto

text \<open>
  C9. When some credential row carries the token and the two queries succeed,
  \<open>resetPassword\<close> returns \<open>true\<close> whatever the expiry; in particular when no row's
  expiry is in the future it returns \<open>true\<close> and has changed nothing.
\<close>

theorem expired_reset_reports_success:
  assumes "r \<in> set (auth_credentials db)" and "c_reset_token r = Some token"
    and "fault e Reset_SelectCredential = None" and "fault e Reset_Update = None"
  shows "fst (resetPassword e db token newPassword) = Inr True
         \<and> ((\<forall>c \<in> set (auth_credentials db). \<not> expires_in_future e c)
              \<longrightarrow> resetPassword e db token newPassword = (Inr True, db))"
proof -
  from assms(1,2) have ne: "filter (\<lambda>c. c_reset_token c = Some token) (auth_credentials db) \<noteq> []"
    by (auto simp: filter_empty_conv)
  then obtain cr rest where f:
    "filter (\<lambda>c. c_reset_token c = Some token) (auth_credentials db) = cr # rest"
    by (cases "filter (\<lambda>c. c_reset_token c = Some token) (auth_credentials db)") auto
  have 1: "fst (resetPassword e db token newPassword) = Inr True"
    using assms(3,4) f
    by (simp add: resetPassword_def resetPassword_try_def catch_with_def query_def Let_def)
  have 2: "resetPassword e db token newPassword = (Inr True, db)"
    if "\<forall>c \<in> set (auth_credentials db). \<not> expires_in_future e c"
  proof -
    have "map (\<lambda>c. if c_id c = c_id cr \<and> expires_in_future e c
                    then c\<lparr>c_password := bcrypt_hash e newPassword, c_reset_token := None,
                           c_reset_token_expires := None\<rparr>
                    else c) (auth_credentials db) = auth_credentials db"
      using that by (intro map_unchanged) simp
    then show ?thesis
      using assms(3,4) f
      by (simp add: resetPassword_def resetPassword_try_def catch_with_def query_def Let_def)
  qed
  from 1 2 show ?thesis by blast
qed

text \<open>C9, witness: the expired sample token is reported as a success.\<close>

theorem expired_reset_reports_success_witness:
  "demo_credential \<in> set (auth_credentials demo_db)
   \<and> c_reset_token demo_credential = Some ''tok''
   \<and> c_reset_token_expires demo_credential = Some 100 \<and> now demo_auth_env = 200
   \<and> resetPassword demo_auth_env demo_db ''tok'' ''nueva-clave'' = (Inr True, demo_db)"
proof -
  have h: "demo_credential \<in> set (auth_credentials demo_db)"
    "c_reset_token demo_credential = Some ''tok''"
    "fault demo_auth_env Reset_SelectCredential = None"
    "fault demo_auth_env Reset_Update = None"
    by (simp_all add: demo_db_def demo_credential_def demo_auth_env_def)
  have x: "\<forall>c \<in> set (auth_credentials demo_db). \<not> expires_in_future demo_auth_env c"
    by (simp add: demo_db_def demo_credential_def demo_auth_env_def expires_in_future_def)
  have o: "c_reset_token_expires demo_credential = Some 100" "now demo_auth_env = 200"
    by (simp_all add: demo_credential_def demo_auth_env_def)
  show ?thesis
    using h o x expired_reset_reports_success [OF h, of "''nueva-clave''"] by simp
qed

section \<open>Claims on the event and blog services\<close>

subsection \<open>C3: the field list of a creation with missing fields\<close>

text \<open>
  C3, the claim as stated fails: with only \<open>event_name\<close> missing, the field list of the
  \<open>ValidationError\<close> also names \<open>event_date\<close>, which was supplied.
\<close>

theorem createEvent_lists_supplied_field:
  "missing_fields event_required demo_event_data = [''event_name'']
   \<and> createEvent demo_env demo_event_data (JNum 7)
       = (Inl (Thrown ValidationError ''Datos de evento incompletos''
                 [''event_name'', ''event_date'', ''event_time'', ''location'', ''event_type'']), [])
   \<and> truthy (getprop demo_event_data ''event_date'')"
  by (simp add: missing_fields_def event_required_def demo_event_data_def createEvent_def getprop_def)

lemma missing_event: "missing_fields event_required d \<noteq> [] \<longleftrightarrow>
   (\<not> truthy (getprop d ''event_name'') \<or> \<not> truthy (getprop d ''event_date'')
         \<or> \<not> truthy (getprop d ''event_time'') \<or> \<not> truthy (getprop d ''location'')
         \<or> \<not> truthy (getprop d ''event_type''))"
  by (simp add: missing_fields_def event_required_def filter_empty_conv) 

lemma missing_blog: "missing_fields blog_required d \<noteq> [] \<longleftrightarrow>
   (\<not> truthy (getprop d ''title'') \<or> \<not> truthy (getprop d ''category'')
         \<or> \<not> truthy (getprop d ''content''))"
  by (simp add: missing_fields_def blog_required_def filter_empty_conv)

text \<open>
  C3, amended. A creation call (event or blog) with at least one required field missing
  fails with a \<open>ValidationError\<close> whose field list is the whole fixed list of required
  fields: it contains every missing field, and the supplied ones as well. No persistence
  call is made.
\<close>

theorem create_reports_all_required_fields:
  "(missing_fields event_required eventData \<noteq> [] \<longrightarrow>
      createEvent e eventData userId
        = (Inl (Thrown ValidationError ''Datos de evento incompletos'' event_required), [])
      \<and> set (missing_fields event_required eventData) \<subseteq> set event_required)
   \<and> (missing_fields blog_required blogData \<noteq> [] \<longrightarrow>
      createBlog e blogData userId
        = (Inl (Thrown ValidationError ''Datos de blog incompletos'' blog_required), [])
      \<and> set (missing_fields blog_required blogData) \<subseteq> set blog_required)"
proof (intro conjI impI)
  assume "missing_fields event_required eventData \<noteq> []"
  then show "createEvent e eventData userId
        = (Inl (Thrown ValidationError ''Datos de evento incompletos'' event_required), [])"
    unfolding missing_event by (simp add: createEvent_def event_required_def)
next
  assume "missing_fields blog_required blogData \<noteq> []"
  then show "createBlog e blogData userId
        = (Inl (Thrown ValidationError ''Datos de blog incompletos'' blog_required), [])"
    unfolding missing_blog by (simp add: createBlog_def blog_required_def)
qed (simp_all add: missing_fields_def)

text \<open>C3, witness: an event without its name and a blog with only a title.\<close>

theorem create_reports_all_required_fields_witness:
  "missing_fields event_required demo_event_data \<noteq> []
   \<and> createEvent demo_env demo_event_data (JNum 7)
        = (Inl (Thrown ValidationError ''Datos de evento incompletos'' event_required), [])
   \<and> missing_fields blog_required [(''title'', JStr ''Hola'')] \<noteq> []
   \<and> createBlog demo_env [(''title'', JStr ''Hola'')] (JNum 7)
        = (Inl (Thrown ValidationError ''Datos de blog incompletos'' blog_required), [])"
proof -
  have a: "missing_fields event_required demo_event_data \<noteq> []"
    by (simp add: missing_fields_def event_required_def demo_event_data_def getprop_def)
  have b: "missing_fields blog_required [(''title'', JStr ''Hola'')] \<noteq> []"
    by (simp add: missing_fields_def blog_required_def getprop_def)
  from a b show ?thesis
    using create_reports_all_required_fields
      [of demo_event_data demo_env "JNum 7" "[(''title'', JStr ''Hola'')]"]
    by simp
qed

subsection \<open>C5: server-managed fields in an update\<close>

text \<open>
  \<open>updateEvent\<close> deletes \<open>created_by\<close>, \<open>created_at\<close> and \<open>updated_at\<close> from the
  patch: whatever it hands to \<open>Event.update\<close> has none of them.
\<close>

lemma updateEvent_strips_managed_fields:
  assumes "EventUpdate i p \<in> set (snd (updateEvent e eid eventData userId))"
  shows "map_of p ''created_by'' = None \<and> map_of p ''created_at'' = None
         \<and> map_of p ''updated_at'' = None"
proof -
  let ?d0 = "delprop (delprop (delprop eventData ''created_by'') ''created_at'') ''updated_at''"
  from assms obtain d where d: "normalize_time ?d0 = Inr d"
    and p: "p = (if getprop d ''is_featured'' \<noteq> JUndefined
                 then setprop d ''is_featured'' (JBool (is_true_flag (getprop d ''is_featured'')))
                 else d)"
    by (auto simp: updateEvent_def with_connection_def event_found_def write_call_def
             split: if_splits option.splits sum.splits prod.splits)
  have "map_of d k = map_of ?d0 k" if "k \<noteq> ''event_time''" for k
    using normalize_time_keys [OF d that] .
  then have "map_of d ''created_by'' = None" "map_of d ''created_at'' = None"
    "map_of d ''updated_at'' = None"
    by (simp_all add: map_of_delprop)
  then show ?thesis by (simp add: p map_of_setprop)
qed

text \<open>
  C5. The claim: an update of an event or a blog removes the owner reference and the
  timestamps from the patch before it is persisted. \<open>updateBlog\<close> removes nothing: the
  author of blog 5 sends a patch with \<open>author_id\<close> 99 and a \<open>created_at\<close>, and
  \<open>Blog.update\<close> receives both.
\<close>

theorem updateBlog_keeps_managed_fields:
  "updateBlog demo_env (JNum 5) demo_blog_patch (JNum 7)
     = (Inr (JBool True),
        [GetConnection, BlogFindById (JNum 5),
         BlogUpdate (JNum 5) [(''title'', JStr ''Nuevo''), (''author_id'', JNum 99),
                               (''created_at'', JStr ''2000-01-01'')],
         Release])"
  by (simp add: updateBlog_def svc_defs demo_env_def demo_blog_def demo_blog_patch_def
        parseInt_JNum safe_integer_def)

subsection \<open>C7: the status enumeration\<close>

text \<open>
  C7, the claim as stated fails: the accepted values are the Spanish words. \<open>activo\<close>,
  which is none of active, cancelled, postponed, completed, is accepted, and \<open>active\<close>
  is rejected.
\<close>

theorem updateEventStatus_accepts_activo:
  "updateEventStatus demo_env (JNum 5) (JStr ''activo'') (JNum 7)
     = (Inr (JBool True),
        [GetConnection, EventFindById (JNum 5), EventUpdateStatus (JNum 5) (JStr ''activo''), Release])
   \<and> ''activo'' \<notin> set spec_event_statuses
   \<and> updateEventStatus demo_env (JNum 5) (JStr ''active'') (JNum 7)
     = (Inl (Thrown ValidationError invalid_status_message []), [])
   \<and> ''active'' \<in> set spec_event_statuses"
  by (simp add: updateEventStatus_def svc_defs demo_env_def demo_event_def includes_status_def
        event_statuses_def spec_event_statuses_def parseInt_JNum safe_integer_def)

lemma includes_status_iff:
  "includes_status status \<longleftrightarrow>
     status \<in> {JStr ''activo'', JStr ''cancelado'', JStr ''pospuesto'', JStr ''completado''}"
  by (cases status) (auto simp: includes_status_def event_statuses_def)

lemma includes_status_truthy: "includes_status status \<Longrightarrow> truthy status"
  by (auto simp: includes_status_iff)

text \<open>
  C7, amended. \<open>updateEventStatus\<close> accepts exactly the four strings \<open>activo\<close>,
  \<open>cancelado\<close>, \<open>pospuesto\<close>, \<open>completado\<close>. Any other value is rejected with
  \<open>ValidationError\<close> before any call to the pool or the model (the message is that of
  the identifier check when the identifier is missing too); one of the four, with an
  identifier, passes validation and the call goes on to get a connection.
\<close>

theorem updateEventStatus_validates_first:
  "(status \<notin> {JStr ''activo'', JStr ''cancelado'', JStr ''pospuesto'', JStr ''completado''} \<longrightarrow>
      updateEventStatus e eid status userId
        = (Inl (Thrown ValidationError
                  (if truthy eid then invalid_status_message else ''ID de evento es requerido'') []),
           []))
   \<and> (status \<in> {JStr ''activo'', JStr ''cancelado'', JStr ''pospuesto'', JStr ''completado''}
        \<and> truthy eid \<longrightarrow>
      hd (snd (updateEventStatus e eid status userId)) = GetConnection)"
proof (intro conjI impI)
  assume "status \<notin> {JStr ''activo'', JStr ''cancelado'', JStr ''pospuesto'', JStr ''completado''}"
  then have "\<not> includes_status status" by (simp add: includes_status_iff)
  then show "updateEventStatus e eid status userId
        = (Inl (Thrown ValidationError
                  (if truthy eid then invalid_status_message else ''ID de evento es requerido'') []),
           [])"
    by (simp add: updateEventStatus_def)
next
  assume a: "status \<in> {JStr ''activo'', JStr ''cancelado'', JStr ''pospuesto'', JStr ''completado''}
        \<and> truthy eid"
  then have i: "includes_status status" "truthy status" "truthy eid"
    using includes_status_truthy by (simp_all add: includes_status_iff)
  then show "hd (snd (updateEventStatus e eid status userId)) = GetConnection"
    by (simp add: updateEventStatus_def with_connection_def split: option.splits prod.splits sum.splits)
qed

text \<open>C7, witness: \<open>archived\<close> is rejected and \<open>pospuesto\<close> goes on.\<close>

theorem updateEventStatus_validates_first_witness:
  "updateEventStatus demo_env (JNum 5) (JStr ''archived'') (JNum 7)
     = (Inl (Thrown ValidationError invalid_status_message []), [])
   \<and> hd (snd (updateEventStatus demo_env (JNum 5) (JStr ''pospuesto'') (JNum 7))) = GetConnection"
  using updateEventStatus_validates_first [of "JStr ''archived''" demo_env "JNum 5" "JNum 7"]
    updateEventStatus_validates_first [of "JStr ''pospuesto''" demo_env "JNum 5" "JNum 7"]
  by simp

subsection \<open>C8: requests by someone who is not the owner\<close>

text \<open>
  C8, the claim as stated fails: \<open>updateEventStatus\<close> checks the status value before
  the ownership, so user 8 sending an invalid status for the event of user 7 gets a
  \<open>ValidationError\<close>, not an \<open>AuthorizationError\<close>.
\<close>

theorem updateEventStatus_invalid_status_non_owner:
  "find_event demo_env (JNum 5) = Inr (Some demo_event)
   \<and> getprop demo_event ''created_by'' = JNum 7
   \<and> parseInt (JNum 8) = PInt 8
   \<and> updateEventStatus demo_env (JNum 5) (JStr ''archived'') (JNum 8)
       = (Inl (Thrown ValidationError invalid_status_message []), [])"
  by (simp add: parseInt_JNum safe_integer_def updateEventStatus_def demo_env_def demo_event_def
        getprop_def includes_status_def event_statuses_def)

text \<open>
  C8, amended. The requester is not the owner when \<open>parseInt\<close> of the requester's
  identifier is not the owner reference (both being values of the model: safe integers
  where they are numbers). For an existing event, the pool and the lookup answering, a
  requester who is not its owner is refused by update, delete and the flag mutators with
  \<open>AuthorizationError\<close> whatever the data, and nothing is written; the exception is
  \<open>updateEventStatus\<close>, which fails with \<open>ValidationError\<close> first when the status is
  invalid. For an existing blog likewise, for update, delete and the active flag; the
  exception is the featured status, which is written when the role query answers that
  the requester's role is \<open>admin\<close>. The two halves have their own hypotheses.
\<close>

theorem non_owner_is_refused:
  "(getConnection e = None \<and> truthy eid \<and> find_event e eid = Inr (Some event)
      \<and> getprop event ''created_by'' = JNum owner \<and> safe_integer owner
      \<and> number_ok userId \<and> parseInt userId \<noteq> PInt owner
    \<longrightarrow>
      updateEvent e eid eventData userId
        = (Inl (Thrown AuthorizationError ''No autorizado para actualizar este evento'' []),
           [GetConnection, EventFindById eid, Release])
      \<and> deleteEvent e eid userId
        = (Inl (Thrown AuthorizationError ''No autorizado para eliminar este evento'' []),
           [GetConnection, EventFindById eid, Release])
      \<and> EventService_updateFeaturedStatus e eid isFeatured userId
        = (Inl (Thrown AuthorizationError ''No autorizado para actualizar este evento'' []),
           [GetConnection, EventFindById eid, Release])
      \<and> updateHomeStatus e eid isHome userId
        = (Inl (Thrown AuthorizationError ''No autorizado para actualizar este evento'' []),
           [GetConnection, EventFindById eid, Release])
      \<and> updateEventStatus e eid status userId
        = (if includes_status status
           then (Inl (Thrown AuthorizationError ''No autorizado para actualizar este evento'' []),
                 [GetConnection, EventFindById eid, Release])
           else (Inl (Thrown ValidationError invalid_status_message []), [])))
   \<and> (getConnection e = None \<and> truthy bid \<and> find_blog e bid = Inr (Some blog)
      \<and> getprop blog ''author_id'' = JNum author \<and> safe_integer author
      \<and> number_ok userId \<and> parseInt userId \<noteq> PInt author
    \<longrightarrow>
      updateBlog e bid blogData userId
        = (Inl (Thrown AuthorizationError ''No autorizado para actualizar este blog'' []),
           [GetConnection, BlogFindById bid, Release])
      \<and> updateBlogStatus e bid isActive userId
        = (Inl (Thrown AuthorizationError ''No autorizado para actualizar este blog'' []),
           [GetConnection, BlogFindById bid, Release])
      \<and> deleteBlog e bid userId
        = (Inl (Thrown AuthorizationError ''No autorizado para eliminar este blog'' []),
           [GetConnection, BlogFindById bid, Release])
      \<and> (\<forall>userRows. select_role e userId = Inr userRows \<longrightarrow>
           BlogService_updateFeaturedStatus e bid isFeatured userId
             = (if is_admin_rows userRows
                then ((case model_write e (BlogUpdateFeaturedStatus bid isFeatured) of
                         Inl x \<Rightarrow>
                           Inl (rethrow_or_wrap
                                  [ValidationError, NotFoundError, AuthorizationError]
                                  ''Error al actualizar el estado destacado del blog'' x)
                       | Inr v \<Rightarrow> Inr v),
                      [GetConnection, BlogFindById bid, SelectUserRole userId,
                       BlogUpdateFeaturedStatus bid isFeatured, Release])
                else (Inl (Thrown AuthorizationError
                             ''No autorizado para actualizar este blog'' []),
                      [GetConnection, BlogFindById bid, SelectUserRole userId, Release]))))"
proof (intro conjI impI)
  assume h: "getConnection e = None \<and> truthy eid \<and> find_event e eid = Inr (Some event)
      \<and> getprop event ''created_by'' = JNum owner \<and> safe_integer owner
      \<and> number_ok userId \<and> parseInt userId \<noteq> PInt owner"
  then have o: "strict_neq_num (JNum owner) (parseInt userId)"
    by (simp add: strict_neq_owner)
  show "updateEvent e eid eventData userId
        = (Inl (Thrown AuthorizationError ''No autorizado para actualizar este evento'' []),
           [GetConnection, EventFindById eid, Release])"
    using h o
    by (simp add: updateEvent_def with_connection_def event_found_def rethrow_or_wrap_detail_def)
  show "deleteEvent e eid userId
        = (Inl (Thrown AuthorizationError ''No autorizado para eliminar este evento'' []),
           [GetConnection, EventFindById eid, Release])"
    using h o
    by (simp add: deleteEvent_def with_connection_def event_found_def rethrow_or_wrap_def)
  show "EventService_updateFeaturedStatus e eid isFeatured userId
        = (Inl (Thrown AuthorizationError ''No autorizado para actualizar este evento'' []),
           [GetConnection, EventFindById eid, Release])"
    using h o
    by (simp add: EventService_updateFeaturedStatus_def with_connection_def event_found_def
          rethrow_or_wrap_def)
  show "updateHomeStatus e eid isHome userId
        = (Inl (Thrown AuthorizationError ''No autorizado para actualizar este evento'' []),
           [GetConnection, EventFindById eid, Release])"
    using h o
    by (simp add: updateHomeStatus_def with_connection_def event_found_def rethrow_or_wrap_def)
  show "updateEventStatus e eid status userId
        = (if includes_status status
           then (Inl (Thrown AuthorizationError ''No autorizado para actualizar este evento'' []),
                 [GetConnection, EventFindById eid, Release])
           else (Inl (Thrown ValidationError invalid_status_message []), []))"
    using h o includes_status_truthy [of status]
    by (auto simp add: updateEventStatus_def with_connection_def event_found_def
          rethrow_or_wrap_def)
next
  assume h: "getConnection e = None \<and> truthy bid \<and> find_blog e bid = Inr (Some blog)
      \<and> getprop blog ''author_id'' = JNum author \<and> safe_integer author
      \<and> number_ok userId \<and> parseInt userId \<noteq> PInt author"
  then have a: "strict_neq_num (JNum author) (parseInt userId)"
    by (simp add: strict_neq_owner)
  show "updateBlog e bid blogData userId
        = (Inl (Thrown AuthorizationError ''No autorizado para actualizar este blog'' []),
           [GetConnection, BlogFindById bid, Release])"
    using h a
    by (simp add: updateBlog_def with_connection_def blog_found_def rethrow_or_wrap_def)
  show "updateBlogStatus e bid isActive userId
        = (Inl (Thrown AuthorizationError ''No autorizado para actualizar este blog'' []),
           [GetConnection, BlogFindById bid, Release])"
    using h a
    by (simp add: updateBlogStatus_def with_connection_def blog_found_def rethrow_or_wrap_def)
  show "deleteBlog e bid userId
        = (Inl (Thrown AuthorizationError ''No autorizado para eliminar este blog'' []),
           [GetConnection, BlogFindById bid, Release])"
    using h a
    by (simp add: deleteBlog_def with_connection_def blog_found_def rethrow_or_wrap_def)
  show "\<forall>userRows. select_role e userId = Inr userRows \<longrightarrow>
           BlogService_updateFeaturedStatus e bid isFeatured userId
             = (if is_admin_rows userRows
                then ((case model_write e (BlogUpdateFeaturedStatus bid isFeatured) of
                         Inl x \<Rightarrow>
                           Inl (rethrow_or_wrap
                                  [ValidationError, NotFoundError, AuthorizationError]
                                  ''Error al actualizar el estado destacado del blog'' x)
                       | Inr v \<Rightarrow> Inr v),
                      [GetConnection, BlogFindById bid, SelectUserRole userId,
                       BlogUpdateFeaturedStatus bid isFeatured, Release])
                else (Inl (Thrown AuthorizationError
                             ''No autorizado para actualizar este blog'' []),
                      [GetConnection, BlogFindById bid, SelectUserRole userId, Release]))"
    using h a
    by (simp add: BlogService_updateFeaturedStatus_def with_connection_def blog_found_def
          write_call_def rethrow_or_wrap_def split: sum.splits)
qed

text \<open>
  C8, witness. User 9, an administrator who owns neither record, is refused the update
  of the event, a valid status change and the deletion of the blog, and may set the
  featured status of the blog. The event half also holds where there is no blog at all:
  in \<open>no_blog_env\<close> user 8 is refused the deletion of the event.
\<close>

theorem non_owner_is_refused_witness:
  "updateEvent demo_env (JNum 5) [(''event_name'', JStr ''Otra'')] (JNum 9)
           = (Inl (Thrown AuthorizationError ''No autorizado para actualizar este evento'' []),
              [GetConnection, EventFindById (JNum 5), Release])
   \<and> updateEventStatus demo_env (JNum 5) (JStr ''cancelado'') (JNum 9)
           = (Inl (Thrown AuthorizationError ''No autorizado para actualizar este evento'' []),
              [GetConnection, EventFindById (JNum 5), Release])
   \<and> deleteBlog demo_env (JNum 5) (JNum 9)
           = (Inl (Thrown AuthorizationError ''No autorizado para eliminar este blog'' []),
              [GetConnection, BlogFindById (JNum 5), Release])
   \<and> BlogService_updateFeaturedStatus demo_env (JNum 5) (JBool True) (JNum 9)
           = (Inr (JBool True),
              [GetConnection, BlogFindById (JNum 5), SelectUserRole (JNum 9),
               BlogUpdateFeaturedStatus (JNum 5) (JBool True), Release])
   \<and> find_blog no_blog_env (JNum 5) = Inr None
   \<and> deleteEvent no_blog_env (JNum 5) (JStr ''8'')
           = (Inl (Thrown AuthorizationError ''No autorizado para eliminar este evento'' []),
              [GetConnection, EventFindById (JNum 5), Release])"
proof -
  have ev: "getConnection demo_env = None \<and> truthy (JNum 5)
      \<and> find_event demo_env (JNum 5) = Inr (Some demo_event)
      \<and> getprop demo_event ''created_by'' = JNum 7 \<and> safe_integer 7
      \<and> number_ok (JNum 9) \<and> parseInt (JNum 9) \<noteq> PInt 7"
    by (simp add: demo_env_def demo_event_def getprop_def parseInt_JNum safe_integer_def)
  have bl: "getConnection demo_env = None \<and> truthy (JNum 5)
      \<and> find_blog demo_env (JNum 5) = Inr (Some demo_blog)
      \<and> getprop demo_blog ''author_id'' = JNum 7 \<and> safe_integer 7
      \<and> number_ok (JNum 9) \<and> parseInt (JNum 9) \<noteq> PInt 7"
    by (simp add: demo_env_def demo_blog_def getprop_def parseInt_JNum safe_integer_def)
  have p8: "parseInt (JStr ''8'') = PInt 8"
    by (simp add: parseInt_def parseInt_str_def skip_space_plain is_space_def read_unsigned_def
          dec_val_def parsed_of_def safe_integer_def)
  have nb: "getConnection no_blog_env = None \<and> truthy (JNum 5)
      \<and> find_event no_blog_env (JNum 5) = Inr (Some demo_event)
      \<and> getprop demo_event ''created_by'' = JNum 7 \<and> safe_integer 7
      \<and> number_ok (JStr ''8'') \<and> parseInt (JStr ''8'') \<noteq> PInt 7"
    by (simp add: p8 no_blog_env_def demo_env_def demo_event_def getprop_def safe_integer_def)
  have rows: "select_role demo_env (JNum 9) = Inr [ [(''role'', JStr ''admin'')] ]"
    by (simp add: demo_env_def)
  have st: "includes_status (JStr ''cancelado'')"
    by (simp add: includes_status_def event_statuses_def)
  have adm: "is_admin_rows [ [(''role'', JStr ''admin'')] ]"
    by (simp add: is_admin_rows_def getprop_def)
  have w: "model_write demo_env c = Inr (JBool True)" for c by (simp add: demo_env_def)
  have f: "find_blog no_blog_env (JNum 5) = Inr None" by (simp add: no_blog_env_def)
  show ?thesis
    using non_owner_is_refused
        [where e = demo_env and eid = "JNum 5" and event = demo_event and owner = 7
           and bid = "JNum 5" and blog = demo_blog and author = 7 and userId = "JNum 9"
           and eventData = "[(''event_name'', JStr ''Otra'')]" and status = "JStr ''cancelado''"
           and isFeatured = "JBool True"]
      non_owner_is_refused
        [where e = no_blog_env and eid = "JNum 5" and event = demo_event and owner = 7
           and userId = "JStr ''8''"]
      ev bl nb rows st adm w f
    by simp
qed

subsection \<open>C10: a requester identifier given as a decimal string\<close>

text \<open>
  C10. Every ownership check compares the owner with \<open>parseInt(userId)\<close>, and for a
  safe integer \<open>n\<close>, as every identifier is, \<open>parseInt\<close> reads both the number \<open>n\<close>
  and its decimal string as \<open>n\<close>. So update, delete and the status and flag mutators of
  both services answer a requester given as the decimal string of \<open>n\<close> exactly as they
  answer the number \<open>n\<close>. For the featured status of a blog the identifier is also the
  parameter of the role query; there the results agree when the database answers that
  query alike for both forms.
\<close>

theorem decimal_string_id_same_as_number:
  "safe_integer n \<longrightarrow>
     parseInt (JStr (decimal n)) = PInt n \<and> parseInt (JNum n) = PInt n
     \<and> updateEvent e eid eventData (JStr (decimal n)) = updateEvent e eid eventData (JNum n)
     \<and> deleteEvent e eid (JStr (decimal n)) = deleteEvent e eid (JNum n)
     \<and> EventService_updateFeaturedStatus e eid flag (JStr (decimal n))
         = EventService_updateFeaturedStatus e eid flag (JNum n)
     \<and> updateHomeStatus e eid flag (JStr (decimal n)) = updateHomeStatus e eid flag (JNum n)
     \<and> updateEventStatus e eid status (JStr (decimal n)) = updateEventStatus e eid status (JNum n)
     \<and> updateBlog e bid blogData (JStr (decimal n)) = updateBlog e bid blogData (JNum n)
     \<and> updateBlogStatus e bid flag (JStr (decimal n)) = updateBlogStatus e bid flag (JNum n)
     \<and> deleteBlog e bid (JStr (decimal n)) = deleteBlog e bid (JNum n)
     \<and> (select_role e (JStr (decimal n)) = select_role e (JNum n) \<longrightarrow>
          fst (BlogService_updateFeaturedStatus e bid flag (JStr (decimal n)))
            = fst (BlogService_updateFeaturedStatus e bid flag (JNum n)))"
proof
  assume safe: "safe_integer n"
  have p: "parseInt (JStr (decimal n)) = parseInt (JNum n)"
    using safe by (simp add: parseInt_JNum parseInt_JStr_decimal)
  have "fst (BlogService_updateFeaturedStatus e bid flag (JStr (decimal n)))
        = fst (BlogService_updateFeaturedStatus e bid flag (JNum n))"
    if "select_role e (JStr (decimal n)) = select_role e (JNum n)"
    using that p
    by (simp add: BlogService_updateFeaturedStatus_def with_connection_def blog_found_def
          write_call_def split: option.splits sum.splits prod.splits)
  then show "parseInt (JStr (decimal n)) = PInt n \<and> parseInt (JNum n) = PInt n
     \<and> updateEvent e eid eventData (JStr (decimal n)) = updateEvent e eid eventData (JNum n)
     \<and> deleteEvent e eid (JStr (decimal n)) = deleteEvent e eid (JNum n)
     \<and> EventService_updateFeaturedStatus e eid flag (JStr (decimal n))
         = EventService_updateFeaturedStatus e eid flag (JNum n)
     \<and> updateHomeStatus e eid flag (JStr (decimal n)) = updateHomeStatus e eid flag (JNum n)
     \<and> updateEventStatus e eid status (JStr (decimal n)) = updateEventStatus e eid status (JNum n)
     \<and> updateBlog e bid blogData (JStr (decimal n)) = updateBlog e bid blogData (JNum n)
     \<and> updateBlogStatus e bid flag (JStr (decimal n)) = updateBlogStatus e bid flag (JNum n)
     \<and> deleteBlog e bid (JStr (decimal n)) = deleteBlog e bid (JNum n)
     \<and> (select_role e (JStr (decimal n)) = select_role e (JNum n) \<longrightarrow>
          fst (BlogService_updateFeaturedStatus e bid flag (JStr (decimal n)))
            = fst (BlogService_updateFeaturedStatus e bid flag (JNum n)))"
    using safe
    by (simp add: p parseInt_JNum updateEvent_def deleteEvent_def
          EventService_updateFeaturedStatus_def updateHomeStatus_def updateEventStatus_def
          updateBlog_def updateBlogStatus_def deleteBlog_def)
qed

text \<open>
  C10, witness: the owner of the sample records as \<open>"7"\<close> and as \<open>7\<close>; both forms
  update the event, and both are answered alike for the featured status of the blog.
\<close>

theorem decimal_string_id_same_as_number_witness:
  "safe_integer 7 \<and> decimal 7 = ''7''
   \<and> select_role demo_env (JStr ''7'') = select_role demo_env (JNum 7)
   \<and> parseInt (JStr ''7'') = PInt 7
   \<and> updateEvent demo_env (JNum 5) [(''location'', JStr ''Parque'')] (JStr ''7'')
       = updateEvent demo_env (JNum 5) [(''location'', JStr ''Parque'')] (JNum 7)
   \<and> updateEvent demo_env (JNum 5) [(''location'', JStr ''Parque'')] (JNum 7)
       = (Inr (JBool True),
          [GetConnection, EventFindById (JNum 5),
           EventUpdate (JNum 5) [(''location'', JStr ''Parque'')], Release])
   \<and> deleteBlog demo_env (JNum 5) (JStr ''7'') = deleteBlog demo_env (JNum 5) (JNum 7)
   \<and> fst (BlogService_updateFeaturedStatus demo_env (JNum 5) (JBool True) (JStr ''7''))
       = fst (BlogService_updateFeaturedStatus demo_env (JNum 5) (JBool True) (JNum 7))"
proof -
  have s: "safe_integer 7" by (simp add: safe_integer_def)
  have d: "decimal 7 = ''7''"
    by code_simp
  have r: "select_role demo_env (JStr (decimal 7)) = select_role demo_env (JNum 7)"
    by (simp add: d demo_env_def)
  have u: "updateEvent demo_env (JNum 5) [(''location'', JStr ''Parque'')] (JNum 7)
       = (Inr (JBool True),
          [GetConnection, EventFindById (JNum 5),
           EventUpdate (JNum 5) [(''location'', JStr ''Parque'')], Release])"
    by (simp add: updateEvent_def svc_defs demo_env_def demo_event_def parseInt_JNum
          safe_integer_def delprop_def normalize_time_def)
  show ?thesis
    using decimal_string_id_same_as_number
        [where n = 7 and e = demo_env and eid = "JNum 5"
           and eventData = "[(''location'', JStr ''Parque'')]" and bid = "JNum 5"
           and flag = "JBool True"]
      s r u
    by (simp add: d)
qed

end
